theory Spec2Isabelle
  imports
    Main
    "HOL-Library.Char_ord"
    "HOL-Library.List_Lexorder"
    "HOL-Library.Product_Lexorder"
    "HOL-Library.Multiset"
begin

section \<open>Domain model of \<^verbatim>\<open>main.py\<close>\<close>

text \<open>
  Text is modelled as the list of its UTF-8 bytes: that is the form in which SQLite stores a
  \<^verbatim>\<open>TEXT\<close> value, and its default collation compares those bytes (shorter prefix first),
  which is the lexicographic order of \<^typ>\<open>string\<close>. The labels of the two enumerations,
  and the label \<open>label_all\<close> that stands for "all types" in a type filter, are the byte
  sequences of the Chinese literals of the source.
\<close>

datatype error = ValueError | DatabaseError | UnicodeEncodeError

subsection \<open>The enumerations\<close>

datatype RecordType = INCOME | EXPENSE

datatype PaymentMethod = CASH | WECHAT | ALIPAY | BANK_CARD

definition label_income :: string where
  "label_income = [CHR 0xE6, CHR 0x94, CHR 0xB6, CHR 0xE5, CHR 0x85, CHR 0xA5]"

definition label_expense :: string where
  "label_expense = [CHR 0xE6, CHR 0x94, CHR 0xAF, CHR 0xE5, CHR 0x87, CHR 0xBA]"

definition label_all :: string where
  "label_all = [CHR 0xE5, CHR 0x85, CHR 0xA8, CHR 0xE9, CHR 0x83, CHR 0xA8]"

fun RecordType_value :: "RecordType \<Rightarrow> string" where
  "RecordType_value INCOME = label_income"
| "RecordType_value EXPENSE = label_expense"

fun PaymentMethod_value :: "PaymentMethod \<Rightarrow> string" where
  "PaymentMethod_value CASH = [CHR 0xE7, CHR 0x8E, CHR 0xB0, CHR 0xE9, CHR 0x87, CHR 0x91]"
| "PaymentMethod_value WECHAT = [CHR 0xE5, CHR 0xBE, CHR 0xAE, CHR 0xE4, CHR 0xBF, CHR 0xA1]"
| "PaymentMethod_value ALIPAY =
     [CHR 0xE6, CHR 0x94, CHR 0xAF, CHR 0xE4, CHR 0xBB, CHR 0x98, CHR 0xE5, CHR 0xAE, CHR 0x9D]"
| "PaymentMethod_value BANK_CARD =
     [CHR 0xE9, CHR 0x93, CHR 0xB6, CHR 0xE8, CHR 0xA1, CHR 0x8C, CHR 0xE5, CHR 0x8D, CHR 0xA1]"

text \<open>The members of each class, in the order of their declaration.\<close>

definition RecordType_members :: "RecordType list" where
  "RecordType_members = [INCOME, EXPENSE]"

definition PaymentMethod_members :: "PaymentMethod list" where
  "PaymentMethod_members = [CASH, WECHAT, ALIPAY, BANK_CARD]"

text \<open>
  \<^verbatim>\<open>RecordType(v)\<close> and \<^verbatim>\<open>PaymentMethod(v)\<close>: the call of an \<^verbatim>\<open>Enum\<close> class on a value
  returns the member that carries this value and raises \<^verbatim>\<open>ValueError\<close> when there is none.
\<close>

definition enum_call :: "('e \<Rightarrow> string) \<Rightarrow> 'e list \<Rightarrow> string \<Rightarrow> error + 'e" where
  "enum_call val members v =
     (case find (\<lambda>m. val m = v) members of
        None \<Rightarrow> Inl ValueError
      | Some m \<Rightarrow> Inr m)"

definition RecordType_call :: "string \<Rightarrow> error + RecordType" where
  "RecordType_call v = enum_call RecordType_value RecordType_members v"

definition PaymentMethod_call :: "string \<Rightarrow> error + PaymentMethod" where
  "PaymentMethod_call v = enum_call PaymentMethod_value PaymentMethod_members v"

subsection \<open>Dates and times\<close>

text \<open>
  A \<^verbatim>\<open>datetime\<close> without time zone, the only kind the program builds (\<^verbatim>\<open>datetime.now()\<close>,
  \<^verbatim>\<open>strptime\<close>, \<^verbatim>\<open>replace\<close>). Python accepts only the field values of \<open>valid_datetime\<close>
  and raises \<^verbatim>\<open>ValueError\<close> on any other.
\<close>

record datetime =
  year :: nat
  month :: nat
  day :: nat
  hour :: nat
  minute :: nat
  second :: nat
  microsecond :: nat

definition is_leap :: "nat \<Rightarrow> bool" where
  "is_leap y \<longleftrightarrow> y mod 4 = 0 \<and> (y mod 100 \<noteq> 0 \<or> y mod 400 = 0)"

definition days_in_month :: "nat \<Rightarrow> nat \<Rightarrow> nat" where
  "days_in_month y m =
     (if m = 2 then (if is_leap y then 29 else 28)
      else if m = 4 \<or> m = 6 \<or> m = 9 \<or> m = 11 then 30
      else 31)"

definition valid_datetime :: "datetime \<Rightarrow> bool" where
  "valid_datetime d \<longleftrightarrow>
     1 \<le> year d \<and> year d \<le> 9999 \<and> 1 \<le> month d \<and> month d \<le> 12 \<and>
     1 \<le> day d \<and> day d \<le> days_in_month (year d) (month d) \<and>
     hour d < 24 \<and> minute d < 60 \<and> second d < 60 \<and> microsecond d < 1000000"

text \<open>\<^verbatim>\<open>d.date()\<close>: the calendar day of \<open>d\<close>.\<close>

definition date :: "datetime \<Rightarrow> nat \<times> nat \<times> nat" where
  "date d = (year d, month d, day d)"

text \<open>\<^verbatim>\<open>d.replace(day=n)\<close>: the new day is checked against the month of \<open>d\<close>.\<close>

definition replace_day :: "datetime \<Rightarrow> int \<Rightarrow> error + datetime" where
  "replace_day d n =
     (if 1 \<le> n \<and> n \<le> int (days_in_month (year d) (month d))
      then Inr (d\<lparr>day := nat n\<rparr>)
      else Inl ValueError)"

text \<open>
  Decimal digits. \<open>pad w n\<close> is \<open>n\<close> written with \<open>w\<close> digits, zero-padded (\<^verbatim>\<open>%02d\<close>, \<^verbatim>\<open>%04d\<close>,
  \<^verbatim>\<open>%06d\<close>); every field of a valid \<^verbatim>\<open>datetime\<close> fits its width.
\<close>

definition digit :: "nat \<Rightarrow> char" where
  "digit k = char_of (48 + k)"

fun pad :: "nat \<Rightarrow> nat \<Rightarrow> string" where
  "pad 0 n = []"
| "pad (Suc w) n = digit (n div 10 ^ w mod 10) # pad w n"

text \<open>
  \<^verbatim>\<open>d.isoformat()\<close>: \<^verbatim>\<open>YYYY-MM-DDTHH:MM:SS\<close>, followed by \<^verbatim>\<open>.ffffff\<close> when the microsecond
  is not zero.
\<close>

definition isoformat :: "datetime \<Rightarrow> string" where
  "isoformat d =
     pad 4 (year d) @ ''-'' @ pad 2 (month d) @ ''-'' @ pad 2 (day d) @ ''T'' @
     pad 2 (hour d) @ '':'' @ pad 2 (minute d) @ '':'' @ pad 2 (second d) @
     (if microsecond d = 0 then [] else ''.'' @ pad 6 (microsecond d))"

text \<open>\<^verbatim>\<open>strftime("%H:%M")\<close> and \<^verbatim>\<open>strftime("%m/%d %H:%M")\<close>.\<close>

definition strftime_HM :: "datetime \<Rightarrow> string" where
  "strftime_HM d = pad 2 (hour d) @ '':'' @ pad 2 (minute d)"

definition strftime_md_HM :: "datetime \<Rightarrow> string" where
  "strftime_md_HM d = pad 2 (month d) @ ''/'' @ pad 2 (day d) @ '' '' @ strftime_HM d"

text \<open>\<^verbatim>\<open>strftime("%Y-%m")\<close>, the key of the current month.\<close>

definition strftime_Ym :: "datetime \<Rightarrow> string" where
  "strftime_Ym d = pad 4 (year d) @ ''-'' @ pad 2 (month d)"

text \<open>
  \<^verbatim>\<open>datetime.fromisoformat(s)\<close>, by its documented grammar for values without time zone:
  \<^verbatim>\<open>YYYY-MM-DD[*HH[:MM[:SS[.fff[fff]]]]]\<close>, where \<^verbatim>\<open>*\<close> is any one character; the fields
  read are then checked as the constructor of \<^verbatim>\<open>datetime\<close> checks them. \<open>None\<close> is the
  \<^verbatim>\<open>ValueError\<close> of the library.
\<close>

definition digit_val :: "char \<Rightarrow> nat option" where
  "digit_val c =
     (let n = of_char c :: nat in if 48 \<le> n \<and> n \<le> 57 then Some (n - 48) else None)"

fun parse_digits :: "nat \<Rightarrow> string \<Rightarrow> (nat \<times> string) option" where
  "parse_digits 0 s = Some (0, s)"
| "parse_digits (Suc w) [] = None"
| "parse_digits (Suc w) (c # cs) =
     (case digit_val c of
        None \<Rightarrow> None
      | Some v \<Rightarrow>
          (case parse_digits w cs of
             None \<Rightarrow> None
           | Some (r, rest) \<Rightarrow> Some (v * 10 ^ w + r, rest)))"

fun expect :: "char \<Rightarrow> string \<Rightarrow> string option" where
  "expect c [] = None"
| "expect c (x # xs) = (if x = c then Some xs else None)"

definition parse_fraction :: "string \<Rightarrow> nat option" where
  "parse_fraction s =
     (if length s = 6 then map_option fst (parse_digits 6 s)
      else if length s = 3 then map_option (\<lambda>(u, _). u * 1000) (parse_digits 3 s)
      else None)"

definition parse_time :: "string \<Rightarrow> (nat \<times> nat \<times> nat \<times> nat) option" where
  "parse_time s =
     (case parse_digits 2 s of
        None \<Rightarrow> None
      | Some (h, s1) \<Rightarrow>
          if s1 = [] then Some (h, 0, 0, 0)
          else (case Option.bind (expect CHR '':'' s1) (parse_digits 2) of
            None \<Rightarrow> None
          | Some (m, s2) \<Rightarrow>
              if s2 = [] then Some (h, m, 0, 0)
              else (case Option.bind (expect CHR '':'' s2) (parse_digits 2) of
                None \<Rightarrow> None
              | Some (sec, s3) \<Rightarrow>
                  if s3 = [] then Some (h, m, sec, 0)
                  else (case Option.bind (expect CHR ''.'' s3) parse_fraction of
                    None \<Rightarrow> None
                  | Some us \<Rightarrow> Some (h, m, sec, us)))))"

definition parse_date :: "string \<Rightarrow> ((nat \<times> nat \<times> nat) \<times> string) option" where
  "parse_date s =
     (case parse_digits 4 s of
        None \<Rightarrow> None
      | Some (y, s1) \<Rightarrow>
          (case Option.bind (expect CHR ''-'' s1) (parse_digits 2) of
             None \<Rightarrow> None
           | Some (m, s2) \<Rightarrow>
               (case Option.bind (expect CHR ''-'' s2) (parse_digits 2) of
                  None \<Rightarrow> None
                | Some (d, s3) \<Rightarrow> Some ((y, m, d), s3))))"

definition fromisoformat :: "string \<Rightarrow> datetime option" where
  "fromisoformat s =
     (case parse_date s of
        None \<Rightarrow> None
      | Some ((y, m, d), rest) \<Rightarrow>
          (case (case rest of [] \<Rightarrow> Some (0, 0, 0, 0) | sep # t \<Rightarrow> parse_time t) of
             None \<Rightarrow> None
           | Some (h, mi, sec, us) \<Rightarrow>
               (let dt = \<lparr>year = y, month = m, day = d, hour = h, minute = mi,
                          second = sec, microsecond = us\<rparr>
                in if valid_datetime dt then Some dt else None)))"

text \<open>
  The order of two such values (\<^verbatim>\<open><=\<close> of Python) is the lexicographic order of their
  fields.
\<close>

definition dt_key :: "datetime \<Rightarrow> nat \<times> nat \<times> nat \<times> nat \<times> nat \<times> nat \<times> nat" where
  "dt_key d = (year d, month d, day d, hour d, minute d, second d, microsecond d)"

subsection \<open>Categories and records\<close>

text \<open>
  The classes \<^verbatim>\<open>Category\<close> and \<^verbatim>\<open>Record\<close>. A category read through the left join has
  \<^verbatim>\<open>None\<close> for its name, icon and colour when no row of \<^verbatim>\<open>categories\<close> has its id. The
  amount is a \<^verbatim>\<open>float\<close> in the source; here its type \<open>'a\<close> is left open, and only the
  operations a definition uses (\<open>0\<close>, \<open>+\<close>) are asked of it.
\<close>

record Category =
  category_id :: int
  name :: "string option"
  icon :: "string option"
  color :: "string option"

record 'a Record =
  record_id :: int
  amount :: 'a
  record_type :: RecordType
  category :: Category
  payment_method :: PaymentMethod
  rnote :: string
  record_date :: datetime

text \<open>
  \<^verbatim>\<open>Record.__init__\<close>: a missing \<^verbatim>\<open>record_date\<close> becomes the current time (a
  \<^verbatim>\<open>datetime\<close> is never falsy).
\<close>

definition Record_init ::
  "datetime \<Rightarrow> int \<Rightarrow> 'a \<Rightarrow> RecordType \<Rightarrow> Category \<Rightarrow> PaymentMethod \<Rightarrow> string \<Rightarrow>
   datetime option \<Rightarrow> 'a Record" where
  "Record_init now rid amt rt cat pm nt rd =
     \<lparr>record_id = rid, amount = amt, record_type = rt, category = cat,
      payment_method = pm, rnote = nt,
      record_date = (case rd of None \<Rightarrow> now | Some d \<Rightarrow> d)\<rparr>"

definition label_today :: string where
  "label_today = [CHR 0xE4, CHR 0xBB, CHR 0x8A, CHR 0xE5, CHR 0xA4, CHR 0xA9, CHR 0x20]"

definition label_yesterday :: string where
  "label_yesterday = [CHR 0xE6, CHR 0x98, CHR 0xA8, CHR 0xE5, CHR 0xA4, CHR 0xA9, CHR 0x20]"

text \<open>
  \<^verbatim>\<open>Record.get_formatted_time\<close>, with the clock read \<^verbatim>\<open>datetime.now()\<close> as the parameter
  \<open>now\<close>. The method has no handler: the \<^verbatim>\<open>ValueError\<close> of \<^verbatim>\<open>replace\<close> leaves it.
\<close>

definition get_formatted_time :: "datetime \<Rightarrow> 'a Record \<Rightarrow> error + string" where
  "get_formatted_time now self =
     (if date (record_date self) = date now
      then Inr (label_today @ strftime_HM (record_date self))
      else (case replace_day now (int (day now) - 1) of
        Inl e \<Rightarrow> Inl e
      | Inr y \<Rightarrow>
          if date (record_date self) = date y
          then Inr (label_yesterday @ strftime_HM (record_date self))
          else Inr (strftime_md_HM (record_date self))))"

subsection \<open>The database\<close>

text \<open>
  The file of \<^verbatim>\<open>db_path\<close> holds the two tables of \<^verbatim>\<open>_init_database\<close>. The rows of
  \<^verbatim>\<open>records\<close> are kept in the order of their row ids, which is the order of a table scan;
  \<open>records_seq\<close> is the counter that \<^verbatim>\<open>AUTOINCREMENT\<close> keeps for the table. The table
  \<^verbatim>\<open>categories\<close> is a map from its primary key. A file that does not exist yet is the
  database with both tables empty, since \<^verbatim>\<open>connect\<close> and \<^verbatim>\<open>CREATE TABLE IF NOT EXISTS\<close>
  create it so.
\<close>

record 'a record_row =
  row_id :: int
  row_amount :: 'a
  row_type :: string
  row_category_id :: int
  row_payment_method :: string
  row_note :: string
  row_record_date :: string

record category_row =
  cat_name :: string
  cat_icon :: string
  cat_color :: string

record 'a database =
  records :: "'a record_row list"
  records_seq :: int
  categories :: "int \<rightharpoonup> category_row"

definition empty_database :: "'a database" where
  "empty_database = \<lparr>records = [], records_seq = 0, categories = Map.empty\<rparr>"

text \<open>
  Every method of \<^verbatim>\<open>RecordManager\<close> runs its statements inside \<^verbatim>\<open>try\<close> and catches
  \<^verbatim>\<open>Exception\<close>. The parameter \<open>fault\<close> of the operations below is the exception that
  \<^verbatim>\<open>sqlite3\<close> raises during the call, if it raises one (file not reachable, disk full,
  table missing, bound of \<^verbatim>\<open>LIMIT\<close> refused); a call that fails commits nothing. Each
  operation is given as the body of its \<^verbatim>\<open>try\<close>, with the exception as a value, and as the
  value that the method returns, which on a failure is the value of its handler. The
  message that a handler prints before it returns is modelled further below, with the
  outcome of a call.
\<close>

subsubsection \<open>Initialisation\<close>

definition default_categories :: "(int \<times> category_row) list" where
  "default_categories =
     [(1, \<lparr>cat_name = [CHR 0xE7, CHR 0xBE, CHR 0x8E, CHR 0xE9, CHR 0xA3, CHR 0x9F,
         CHR 0xE9, CHR 0xA5, CHR 0xAE, CHR 0xE5, CHR 0x93, CHR 0x81],
           cat_icon = [CHR 0xF0, CHR 0x9F, CHR 0x8D, CHR 0x94], cat_color = ''#FF6B6B''\<rparr>),
      (2, \<lparr>cat_name = [CHR 0xE8, CHR 0xB4, CHR 0xAD, CHR 0xE7, CHR 0x89, CHR 0xA9,
          CHR 0xE6, CHR 0xB6, CHR 0x88, CHR 0xE8, CHR 0xB4, CHR 0xB9],
           cat_icon = [CHR 0xF0, CHR 0x9F, CHR 0x8E, CHR 0x92], cat_color = ''#4ECDC4''\<rparr>),
      (3, \<lparr>cat_name = [CHR 0xE4, CHR 0xBA, CHR 0xA4, CHR 0xE9, CHR 0x80, CHR 0x9A,
          CHR 0xE5, CHR 0x87, CHR 0xBA, CHR 0xE8, CHR 0xA1, CHR 0x8C],
           cat_icon = [CHR 0xF0, CHR 0x9F, CHR 0x9A, CHR 0x97], cat_color = ''#45B7D1''\<rparr>),
      (4, \<lparr>cat_name = [CHR 0xE5, CHR 0xA8, CHR 0xB1, CHR 0xE4, CHR 0xB9, CHR 0x90,
          CHR 0xE4, CHR 0xBC, CHR 0x91, CHR 0xE9, CHR 0x97, CHR 0xB2],
           cat_icon = [CHR 0xF0, CHR 0x9F, CHR 0x8E, CHR 0xAE], cat_color = ''#96CEB4''\<rparr>),
      (5, \<lparr>cat_name = [CHR 0xE6, CHR 0x95, CHR 0xB0, CHR 0xE7, CHR 0xA0, CHR 0x81,
          CHR 0xE5, CHR 0xAE, CHR 0xB6, CHR 0xE7, CHR 0x94, CHR 0xB5],
           cat_icon = [CHR 0xF0, CHR 0x9F, CHR 0x93, CHR 0xB1], cat_color = ''#F7DC6F''\<rparr>),
      (6, \<lparr>cat_name = [CHR 0xE5, CHR 0x8C, CHR 0xBB, CHR 0xE7, CHR 0x96, CHR 0x97,
          CHR 0xE5, CHR 0x81, CHR 0xA5, CHR 0xE5, CHR 0xBA, CHR 0xB7],
           cat_icon = [CHR 0xF0, CHR 0x9F, CHR 0x8F, CHR 0xA5], cat_color = ''#BB8FCE''\<rparr>),
      (7, \<lparr>cat_name = [CHR 0xE6, CHR 0x95, CHR 0x99, CHR 0xE8, CHR 0x82, CHR 0xB2,
          CHR 0xE5, CHR 0x9F, CHR 0xB9, CHR 0xE8, CHR 0xAE, CHR 0xAD],
           cat_icon = [CHR 0xF0, CHR 0x9F, CHR 0x93, CHR 0x9A], cat_color = ''#F1948A''\<rparr>),
      (8, \<lparr>cat_name = [CHR 0xE5, CHR 0xB7, CHR 0xA5, CHR 0xE8, CHR 0xB5, CHR 0x84,
          CHR 0xE6, CHR 0x94, CHR 0xB6, CHR 0xE5, CHR 0x85, CHR 0xA5],
           cat_icon = [CHR 0xF0, CHR 0x9F, CHR 0x92, CHR 0xB0], cat_color = ''#52BE80''\<rparr>),
      (9, \<lparr>cat_name = [CHR 0xE6, CHR 0x8A, CHR 0x95, CHR 0xE8, CHR 0xB5, CHR 0x84,
          CHR 0xE7, CHR 0x90, CHR 0x86, CHR 0xE8, CHR 0xB4, CHR 0xA2],
           cat_icon = [CHR 0xF0, CHR 0x9F, CHR 0x93, CHR 0x88], cat_color = ''#5499C7''\<rparr>),
      (10, \<lparr>cat_name = [CHR 0xE5, CHR 0x85, CHR 0xB6, CHR 0xE4, CHR 0xBB, CHR 0x96],
           cat_icon = [CHR 0xF0, CHR 0x9F, CHR 0x93, CHR 0xA6], cat_color = ''#95A5A6''\<rparr>)]"

text \<open>\<^verbatim>\<open>INSERT OR IGNORE\<close> of one row with its id: a row whose id is taken is skipped.\<close>

definition insert_or_ignore ::
  "int \<times> category_row \<Rightarrow> (int \<rightharpoonup> category_row) \<Rightarrow> (int \<rightharpoonup> category_row)" where
  "insert_or_ignore kv cats =
     (case cats (fst kv) of
        None \<Rightarrow> cats(fst kv \<mapsto> snd kv)
      | Some c \<Rightarrow> cats)"

definition insert_default_data :: "(int \<rightharpoonup> category_row) \<Rightarrow> (int \<rightharpoonup> category_row)" where
  "insert_default_data cats = fold insert_or_ignore default_categories cats"

definition init_database_try :: "error option \<Rightarrow> 'a database \<Rightarrow> error + 'a database" where
  "init_database_try fault db =
     (case fault of
        Some e \<Rightarrow> Inl e
      | None \<Rightarrow> Inr (db\<lparr>categories := insert_default_data (categories db)\<rparr>))"

definition init_database :: "error option \<Rightarrow> 'a database \<Rightarrow> 'a database" where
  "init_database fault db =
     (case init_database_try fault db of
        Inl e \<Rightarrow> db
      | Inr db' \<Rightarrow> db')"

subsubsection \<open>Insertion\<close>

text \<open>
  The id of a new row: one more than the largest id the table has had
  (\<^verbatim>\<open>INTEGER PRIMARY KEY AUTOINCREMENT\<close>). Ids are unbounded integers here; the bound
  \<open>2\<^sup>6\<^sup>3 - 1\<close> of SQLite is out of reach of a table that only grows by one row at a time.
\<close>

definition next_rowid :: "'a database \<Rightarrow> int" where
  "next_rowid db = max (records_seq db) (fold max (map row_id (records db)) 0) + 1"

definition add_record_try :: "error option \<Rightarrow> 'a database \<Rightarrow> 'a Record \<Rightarrow> error + 'a database" where
  "add_record_try fault db record =
     (case fault of
        Some e \<Rightarrow> Inl e
      | None \<Rightarrow>
          Inr (db\<lparr>records := records db @
                  [\<lparr>row_id = next_rowid db,
                    row_amount = amount record,
                    row_type = RecordType_value (record_type record),
                    row_category_id = category_id (category record),
                    row_payment_method = PaymentMethod_value (payment_method record),
                    row_note = rnote record,
                    row_record_date = isoformat (record_date record)\<rparr>],
                records_seq := next_rowid db\<rparr>))"

definition add_record :: "error option \<Rightarrow> 'a database \<Rightarrow> 'a Record \<Rightarrow> bool \<times> 'a database" where
  "add_record fault db record =
     (case add_record_try fault db record of
        Inl e \<Rightarrow> (False, db)
      | Inr db' \<Rightarrow> (True, db'))"

subsubsection \<open>Reading rows\<close>

text \<open>
  \<^verbatim>\<open>FROM records r LEFT JOIN categories c ON r.category_id = c.id\<close>: the id is the key of
  \<^verbatim>\<open>categories\<close>, so every row of \<^verbatim>\<open>records\<close> gives one row, with the category or without.
\<close>

type_synonym 'a joined_row = "'a record_row \<times> category_row option"

definition left_join :: "(int \<rightharpoonup> category_row) \<Rightarrow> 'a record_row list \<Rightarrow> 'a joined_row list" where
  "left_join cats rows = map (\<lambda>r. (r, cats (row_category_id r))) rows"

text \<open>
  \<^verbatim>\<open>ORDER BY key DESC\<close>: larger keys first, rows of equal key in the order of the scan.
\<close>

fun insert_desc :: "('r \<Rightarrow> 'k::linorder) \<Rightarrow> 'r \<Rightarrow> 'r list \<Rightarrow> 'r list" where
  "insert_desc key x [] = [x]"
| "insert_desc key x (y # ys) =
     (if key y \<le> key x then x # y # ys else y # insert_desc key x ys)"

definition order_by_desc :: "('r \<Rightarrow> 'k::linorder) \<Rightarrow> 'r list \<Rightarrow> 'r list" where
  "order_by_desc key rows = foldr (insert_desc key) rows []"

text \<open>
  \<^verbatim>\<open>LIMIT n\<close>, with \<open>n\<close> written into the query text by the f-string. SQLite takes the
  bound as a signed 64-bit integer: a literal outside that range is refused (datatype
  mismatch), which \<^verbatim>\<open>sqlite3\<close> raises as an exception. A negative bound is no bound.
\<close>

definition sql_limit :: "int \<Rightarrow> 'r list \<Rightarrow> error + 'r list" where
  "sql_limit n rows =
     (if n < - (2 ^ 63) \<or> 2 ^ 63 \<le> n then Inl DatabaseError
      else if n < 0 then Inr rows
      else Inr (take (nat n) rows))"

text \<open>The body of the loop over \<^verbatim>\<open>cursor.fetchall()\<close>, and the loop.\<close>

definition row_to_record :: "datetime \<Rightarrow> 'a joined_row \<Rightarrow> error + 'a Record" where
  "row_to_record now jr =
     (let r = fst jr; c = snd jr;
          category = \<lparr>category_id = row_category_id r, name = map_option cat_name c,
                      icon = map_option cat_icon c, color = map_option cat_color c\<rparr>;
          record_date = (case fromisoformat (row_record_date r) of
                           None \<Rightarrow> now
                         | Some d \<Rightarrow> d)
      in case RecordType_call (row_type r) of
           Inl e \<Rightarrow> Inl e
         | Inr rt \<Rightarrow>
             (case PaymentMethod_call (row_payment_method r) of
                Inl e \<Rightarrow> Inl e
              | Inr pm \<Rightarrow>
                  Inr (Record_init now (row_id r) (row_amount r) rt category pm (row_note r)
                         (Some record_date))))"

fun rows_to_records :: "datetime \<Rightarrow> 'a joined_row list \<Rightarrow> error + 'a Record list" where
  "rows_to_records now [] = Inr []"
| "rows_to_records now (jr # jrs) =
     (case row_to_record now jr of
        Inl e \<Rightarrow> Inl e
      | Inr record \<Rightarrow>
          (case rows_to_records now jrs of
             Inl e \<Rightarrow> Inl e
           | Inr recs \<Rightarrow> Inr (record # recs)))"

definition get_all_records_try ::
  "datetime \<Rightarrow> error option \<Rightarrow> 'a database \<Rightarrow> int option \<Rightarrow> error + 'a Record list" where
  "get_all_records_try now fault db limit =
     (case fault of
        Some e \<Rightarrow> Inl e
      | None \<Rightarrow>
          (let rows = order_by_desc (\<lambda>jr. row_record_date (fst jr))
                        (left_join (categories db) (records db));
               limited = (case limit of
                            None \<Rightarrow> Inr rows
                          | Some n \<Rightarrow> if n \<noteq> 0 then sql_limit n rows else Inr rows)
           in case limited of
                Inl e \<Rightarrow> Inl e
              | Inr rows \<Rightarrow> rows_to_records now rows))"

definition get_all_records ::
  "datetime \<Rightarrow> error option \<Rightarrow> 'a database \<Rightarrow> int option \<Rightarrow> 'a Record list" where
  "get_all_records now fault db limit =
     (case get_all_records_try now fault db limit of
        Inl e \<Rightarrow> []
      | Inr recs \<Rightarrow> recs)"

text \<open>
  The type filter: the test \<^verbatim>\<open>record_type and record_type != ALL\<close>, where \<^verbatim>\<open>ALL\<close> is the
  literal of \<open>label_all\<close>, holds for a text that is neither empty nor that label; then the
  text is the third parameter of the query.
\<close>

definition type_param :: "string option \<Rightarrow> string option" where
  "type_param type_filter =
     (case type_filter of
        None \<Rightarrow> None
      | Some t \<Rightarrow> if t \<noteq> [] \<and> t \<noteq> label_all then Some t else None)"

text \<open>
  \<^verbatim>\<open>WHERE record_date BETWEEN ? AND ?\<close>, with \<^verbatim>\<open>AND type = ?\<close> under the type filter. The
  comparison is the one of the stored texts.
\<close>

definition where_clause ::
  "datetime \<Rightarrow> datetime \<Rightarrow> string option \<Rightarrow> 'a record_row \<Rightarrow> bool" where
  "where_clause start_date end_date type_filter r \<longleftrightarrow>
     isoformat start_date \<le> row_record_date r \<and> row_record_date r \<le> isoformat end_date \<and>
     (case type_param type_filter of
        None \<Rightarrow> True
      | Some t \<Rightarrow> row_type r = t)"

definition get_records_by_date_range_try ::
  "datetime \<Rightarrow> error option \<Rightarrow> 'a database \<Rightarrow> datetime \<Rightarrow> datetime \<Rightarrow> string option \<Rightarrow>
   error + 'a Record list" where
  "get_records_by_date_range_try now fault db start_date end_date type_filter =
     (case fault of
        Some e \<Rightarrow> Inl e
      | None \<Rightarrow>
          rows_to_records now
            (order_by_desc (\<lambda>jr. row_record_date (fst jr))
               (filter (\<lambda>jr. where_clause start_date end_date type_filter (fst jr))
                  (left_join (categories db) (records db)))))"

definition get_records_by_date_range ::
  "datetime \<Rightarrow> error option \<Rightarrow> 'a database \<Rightarrow> datetime \<Rightarrow> datetime \<Rightarrow> string option \<Rightarrow>
   'a Record list" where
  "get_records_by_date_range now fault db start_date end_date type_filter =
     (case get_records_by_date_range_try now fault db start_date end_date type_filter of
        Inl e \<Rightarrow> []
      | Inr recs \<Rightarrow> recs)"

subsubsection \<open>Summaries\<close>

text \<open>
  \<^verbatim>\<open>SUM\<close> adds the values of a group in the order of the scan and is \<^verbatim>\<open>NULL\<close> for no
  value; \<^verbatim>\<open>GROUP BY\<close> gives one row for each key that occurs. \<^verbatim>\<open>v or 0.0\<close> replaces
  \<^verbatim>\<open>None\<close> and zero by \<^verbatim>\<open>0.0\<close>.
\<close>

definition sql_sum :: "'a::{zero,plus} list \<Rightarrow> 'a option" where
  "sql_sum vs = (if vs = [] then None else Some (foldl (+) 0 vs))"

definition group_by :: "('r \<Rightarrow> 'k) \<Rightarrow> 'r list \<Rightarrow> ('k \<times> 'r list) list" where
  "group_by key rows = map (\<lambda>k. (k, filter (\<lambda>r. key r = k) rows)) (remdups (map key rows))"

definition or_zero :: "'a::zero option \<Rightarrow> 'a" where
  "or_zero v = (case v of None \<Rightarrow> 0 | Some x \<Rightarrow> if x = 0 then 0 else x)"

definition zero_totals :: "string \<rightharpoonup> 'a::zero" where
  "zero_totals = [label_income \<mapsto> 0, label_expense \<mapsto> 0]"

definition get_summary_by_date_range_try ::
  "error option \<Rightarrow> 'a::{zero,plus} database \<Rightarrow> datetime \<Rightarrow> datetime \<Rightarrow> string option \<Rightarrow>
   error + (string \<rightharpoonup> 'a)" where
  "get_summary_by_date_range_try fault db start_date end_date type_filter =
     (case fault of
        Some e \<Rightarrow> Inl e
      | None \<Rightarrow>
          (let rows = map (\<lambda>(k, g). (k, sql_sum (map row_amount g)))
                        (group_by row_type
                           (filter (where_clause start_date end_date type_filter)
                              (records db)));
               result = fold (\<lambda>row m. m(fst row \<mapsto> or_zero (snd row))) rows zero_totals
           in Inr (case type_param type_filter of
                     Some t \<Rightarrow> [t \<mapsto> (case result t of None \<Rightarrow> 0 | Some v \<Rightarrow> v)]
                   | None \<Rightarrow> result)))"

definition get_summary_by_date_range ::
  "error option \<Rightarrow> 'a::{zero,plus} database \<Rightarrow> datetime \<Rightarrow> datetime \<Rightarrow> string option \<Rightarrow>
   (string \<rightharpoonup> 'a)" where
  "get_summary_by_date_range fault db start_date end_date type_filter =
     (case get_summary_by_date_range_try fault db start_date end_date type_filter of
        Inl e \<Rightarrow> zero_totals
      | Inr result \<Rightarrow> result)"

text \<open>
  \<^verbatim>\<open>get_category_summary\<close>: the groups are keyed by the joined category name, which is
  \<^verbatim>\<open>None\<close> for a record without category row, and by the type.
\<close>

definition category_step ::
  "(string option \<times> string) \<times> 'a::zero option \<Rightarrow>
   (string option \<rightharpoonup> (string \<rightharpoonup> 'a)) \<Rightarrow> (string option \<rightharpoonup> (string \<rightharpoonup> 'a))" where
  "category_step row result =
     (let category_name = fst (fst row); record_type_val = snd (fst row);
          result = (case result category_name of
                      None \<Rightarrow> result(category_name \<mapsto> zero_totals)
                    | Some totals \<Rightarrow> result)
      in case result category_name of
           None \<Rightarrow> result
         | Some totals \<Rightarrow>
             result(category_name \<mapsto> totals(record_type_val \<mapsto> or_zero (snd row))))"

definition get_category_summary_try ::
  "error option \<Rightarrow> 'a::{zero,plus} database \<Rightarrow> datetime \<Rightarrow> datetime \<Rightarrow> string option \<Rightarrow>
   error + (string option \<rightharpoonup> (string \<rightharpoonup> 'a))" where
  "get_category_summary_try fault db start_date end_date type_filter =
     (case fault of
        Some e \<Rightarrow> Inl e
      | None \<Rightarrow>
          (let rows = map (\<lambda>(k, g). (k, sql_sum (map (\<lambda>jr. row_amount (fst jr)) g)))
                        (group_by (\<lambda>jr. (map_option cat_name (snd jr), row_type (fst jr)))
                           (filter (\<lambda>jr. where_clause start_date end_date type_filter (fst jr))
                              (left_join (categories db) (records db))))
           in Inr (fold category_step rows Map.empty)))"

definition get_category_summary ::
  "error option \<Rightarrow> 'a::{zero,plus} database \<Rightarrow> datetime \<Rightarrow> datetime \<Rightarrow> string option \<Rightarrow>
   (string option \<rightharpoonup> (string \<rightharpoonup> 'a))" where
  "get_category_summary fault db start_date end_date type_filter =
     (case get_category_summary_try fault db start_date end_date type_filter of
        Inl e \<Rightarrow> Map.empty
      | Inr result \<Rightarrow> result)"

text \<open>
  \<^verbatim>\<open>get_monthly_summary\<close>. The SQL function \<^verbatim>\<open>strftime('%Y-%m', x)\<close> of SQLite is the
  parameter \<open>sql_strftime\<close>; it is \<^verbatim>\<open>NULL\<close> (\<open>None\<close>) on a text it does not read as a date,
  and such a row is not selected.
\<close>

definition get_monthly_summary_try ::
  "(string \<Rightarrow> string option) \<Rightarrow> datetime \<Rightarrow> error option \<Rightarrow> 'a::{zero,plus} database \<Rightarrow>
   error + (string \<rightharpoonup> 'a)" where
  "get_monthly_summary_try sql_strftime now fault db =
     (case fault of
        Some e \<Rightarrow> Inl e
      | None \<Rightarrow>
          (let current_month = strftime_Ym now;
               rows = map (\<lambda>(k, g). (k, sql_sum (map row_amount g)))
                        (group_by row_type
                           (filter (\<lambda>r. sql_strftime (row_record_date r) = Some current_month)
                              (records db)))
           in Inr (fold (\<lambda>row m. m(fst row \<mapsto> or_zero (snd row))) rows zero_totals)))"

definition get_monthly_summary ::
  "(string \<Rightarrow> string option) \<Rightarrow> datetime \<Rightarrow> error option \<Rightarrow> 'a::{zero,plus} database \<Rightarrow>
   (string \<rightharpoonup> 'a)" where
  "get_monthly_summary sql_strftime now fault db =
     (case get_monthly_summary_try sql_strftime now fault db of
        Inl e \<Rightarrow> zero_totals
      | Inr result \<Rightarrow> result)"

subsubsection \<open>The handlers and their message\<close>

text \<open>
  The handler of every method first prints a message, a Chinese text followed by the
  exception, and then returns the value of the failure. \<^verbatim>\<open>print\<close> raises
  \<^verbatim>\<open>UnicodeEncodeError\<close> when the standard output cannot encode the message; the call
  stands in the handler itself, so that exception leaves the method. The parameter
  \<open>print_fault\<close> is the exception that \<^verbatim>\<open>print\<close> raises on such a message, if it raises
  one. The definitions above give the value that a method returns; the definitions here
  give the outcome of a call: the exception that leaves the method (\<open>Inl\<close>) or the value
  that it returns (\<open>Inr\<close>).
\<close>

definition except_handler :: "error option \<Rightarrow> 'r \<Rightarrow> error + 'r" where
  "except_handler print_fault failure_value =
     (case print_fault of
        Some pe \<Rightarrow> Inl pe
      | None \<Rightarrow> Inr failure_value)"

text \<open>
  \<^verbatim>\<open>_init_database\<close> also prints a message of success, inside its \<^verbatim>\<open>try\<close> and after the
  commit: when that \<^verbatim>\<open>print\<close> raises, the handler runs and prints in its turn. The
  outcome is the exception that leaves the method, if any, and the state of the file.
\<close>

definition init_database_outcome ::
  "error option \<Rightarrow> error option \<Rightarrow> 'a database \<Rightarrow> error option \<times> 'a database" where
  "init_database_outcome print_fault fault db =
     (case init_database_try fault db of
        Inl e \<Rightarrow>
          (case except_handler print_fault () of
             Inl pe \<Rightarrow> (Some pe, db)
           | Inr u \<Rightarrow> (None, db))
      | Inr db' \<Rightarrow>
          (case print_fault of
             None \<Rightarrow> (None, db')
           | Some pe \<Rightarrow>
               (case except_handler print_fault () of
                  Inl pe' \<Rightarrow> (Some pe', db')
                | Inr u \<Rightarrow> (None, db'))))"

definition add_record_outcome ::
  "error option \<Rightarrow> error option \<Rightarrow> 'a database \<Rightarrow> 'a Record \<Rightarrow>
   error + (bool \<times> 'a database)" where
  "add_record_outcome print_fault fault db record =
     (case add_record_try fault db record of
        Inl e \<Rightarrow> except_handler print_fault (False, db)
      | Inr db' \<Rightarrow> Inr (True, db'))"

definition get_all_records_outcome ::
  "error option \<Rightarrow> datetime \<Rightarrow> error option \<Rightarrow> 'a database \<Rightarrow> int option \<Rightarrow>
   error + 'a Record list" where
  "get_all_records_outcome print_fault now fault db limit =
     (case get_all_records_try now fault db limit of
        Inl e \<Rightarrow> except_handler print_fault []
      | Inr recs \<Rightarrow> Inr recs)"

definition get_records_by_date_range_outcome ::
  "error option \<Rightarrow> datetime \<Rightarrow> error option \<Rightarrow> 'a database \<Rightarrow> datetime \<Rightarrow> datetime \<Rightarrow>
   string option \<Rightarrow> error + 'a Record list" where
  "get_records_by_date_range_outcome print_fault now fault db start_date end_date type_filter =
     (case get_records_by_date_range_try now fault db start_date end_date type_filter of
        Inl e \<Rightarrow> except_handler print_fault []
      | Inr recs \<Rightarrow> Inr recs)"

definition get_summary_by_date_range_outcome ::
  "error option \<Rightarrow> error option \<Rightarrow> 'a::{zero,plus} database \<Rightarrow> datetime \<Rightarrow> datetime \<Rightarrow>
   string option \<Rightarrow> error + (string \<rightharpoonup> 'a)" where
  "get_summary_by_date_range_outcome print_fault fault db start_date end_date type_filter =
     (case get_summary_by_date_range_try fault db start_date end_date type_filter of
        Inl e \<Rightarrow> except_handler print_fault zero_totals
      | Inr result \<Rightarrow> Inr result)"

definition get_category_summary_outcome ::
  "error option \<Rightarrow> error option \<Rightarrow> 'a::{zero,plus} database \<Rightarrow> datetime \<Rightarrow> datetime \<Rightarrow>
   string option \<Rightarrow> error + (string option \<rightharpoonup> (string \<rightharpoonup> 'a))" where
  "get_category_summary_outcome print_fault fault db start_date end_date type_filter =
     (case get_category_summary_try fault db start_date end_date type_filter of
        Inl e \<Rightarrow> except_handler print_fault Map.empty
      | Inr result \<Rightarrow> Inr result)"

definition get_monthly_summary_outcome ::
  "error option \<Rightarrow> (string \<Rightarrow> string option) \<Rightarrow> datetime \<Rightarrow> error option \<Rightarrow>
   'a::{zero,plus} database \<Rightarrow> error + (string \<rightharpoonup> 'a)" where
  "get_monthly_summary_outcome print_fault sql_strftime now fault db =
     (case get_monthly_summary_try sql_strftime now fault db of
        Inl e \<Rightarrow> except_handler print_fault zero_totals
      | Inr result \<Rightarrow> Inr result)"

text \<open>
  The total of the rows of one type, as \<^verbatim>\<open>SUM\<close> adds them; it names the value that the
  summary gives under a key.
\<close>

definition type_total :: "string \<Rightarrow> 'a::{zero,plus} record_row list \<Rightarrow> 'a" where
  "type_total k rows = foldl (+) 0 (map row_amount (filter (\<lambda>r. row_type r = k) rows))"

text \<open>
  The cross-check of the specification: the sums by type, computed in the application over
  a list of returned records (\<^verbatim>\<open>sum\<close> of the amounts of the records of each type), as a
  mapping with the two labels as keys.
\<close>

definition row_level_summary :: "'a::{zero,plus} Record list \<Rightarrow> (string \<rightharpoonup> 'a)" where
  "row_level_summary recs =
     [label_income \<mapsto> foldl (+) 0 (map amount (filter (\<lambda>r. record_type r = INCOME) recs)),
      label_expense \<mapsto> foldl (+) 0 (map amount (filter (\<lambda>r. record_type r = EXPENSE) recs))]"

subsection \<open>The states of the store\<close>

text \<open>
  The store is the only writer of its file. Its states are those that initialisation and
  insertion of records (with a valid date) produce from a file that did not exist.
\<close>

inductive reachable :: "'a database \<Rightarrow> bool" where
  fresh: "reachable empty_database"
| init: "reachable db \<Longrightarrow> reachable (init_database fault db)"
| add: "reachable db \<Longrightarrow> valid_datetime (record_date record) \<Longrightarrow>
        reachable (snd (add_record fault db record))"

text \<open>
  What every such state satisfies, as a test on the rows: the two labels of a row are
  labels of the enumerations, its date is a text that \<^verbatim>\<open>isoformat\<close> writes, and its id is
  positive.
\<close>

definition stored_date_ok :: "string \<Rightarrow> bool" where
  "stored_date_ok s \<longleftrightarrow> (case fromisoformat s of None \<Rightarrow> False | Some d \<Rightarrow> isoformat d = s)"

definition row_ok :: "'a record_row \<Rightarrow> bool" where
  "row_ok r \<longleftrightarrow>
     row_type r \<in> set (map RecordType_value RecordType_members) \<and>
     row_payment_method r \<in> set (map PaymentMethod_value PaymentMethod_members) \<and>
     stored_date_ok (row_record_date r) \<and> 0 < row_id r"

definition rows_ok :: "'a database \<Rightarrow> bool" where
  "rows_ok db \<longleftrightarrow> list_all row_ok (records db)"

subsection \<open>A store with two records\<close>

text \<open>
  The state after initialisation of a new file and two insertions of the same record,
  used below as a concrete input.
\<close>

definition example_now :: datetime where
  "example_now = \<lparr>year = 2024, month = 6, day = 1, hour = 0, minute = 0, second = 0,
                   microsecond = 0\<rparr>"

definition example_date :: datetime where
  "example_date = \<lparr>year = 2024, month = 5, day = 17, hour = 20, minute = 15, second = 0,
                    microsecond = 0\<rparr>"

definition example_record :: "int Record" where
  "example_record =
     \<lparr>record_id = 0, amount = 3900, record_type = EXPENSE,
      category = \<lparr>category_id = 4, name = None, icon = None, color = None\<rparr>,
      payment_method = CASH, rnote = ''cinema'', record_date = example_date\<rparr>"

definition example_db :: "int database" where
  "example_db =
     snd (add_record None
            (snd (add_record None (init_database None empty_database) example_record))
            example_record)"

text \<open>
  A database with one row whose payment label is not a label of \<^verbatim>\<open>PaymentMethod\<close>, as a
  file written by another program could hold; it is not a state of the store.
\<close>

definition bad_label_db :: "int database" where
  "bad_label_db =
     \<lparr>records = [\<lparr>row_id = 1, row_amount = 500, row_type = label_income, row_category_id = 8,
                   row_payment_method = ''PayPal'', row_note = [],
                   row_record_date = isoformat example_date\<rparr>],
      records_seq = 1, categories = Map.empty\<rparr>"

section \<open>Properties\<close>

subsection \<open>Reading back what \<^verbatim>\<open>isoformat\<close> writes\<close>

lemma digit_val_digit: "k < 10 \<Longrightarrow> digit_val (digit k) = Some k"
  by (simp add: digit_val_def digit_def Let_def)

lemma length_pad: "length (pad w n) = w"
  by (induction w) simp_all

lemma parse_digits_pad: "parse_digits w (pad w n @ rest) = Some (n mod 10 ^ w, rest)"
proof (induction w)
  case 0
  show ?case by simp
next
  case (Suc w)
  have "n mod (10 ^ w * 10) = 10 ^ w * (n div 10 ^ w mod 10) + n mod 10 ^ w"
    by (rule mod_mult2_eq)
  then have "n mod 10 ^ Suc w = (n div 10 ^ w mod 10) * 10 ^ w + n mod 10 ^ w"
    by (simp only: power_Suc2 mult.commute)
  moreover have "digit_val (digit (n div 10 ^ w mod 10)) = Some (n div 10 ^ w mod 10)"
    by (rule digit_val_digit) simp
  ultimately show ?case
    using Suc by (simp del: power_Suc)
qed

lemma parse_digits_pad_fit: "n < 10 ^ w \<Longrightarrow> parse_digits w (pad w n @ rest) = Some (n, rest)"
  by (simp add: parse_digits_pad)

lemma valid_datetime_widths:
  assumes "valid_datetime d"
  shows "year d < 10 ^ 4" "month d < 10 ^ 2" "day d < 10 ^ 2" "hour d < 10 ^ 2"
    "minute d < 10 ^ 2" "second d < 10 ^ 2" "microsecond d < 10 ^ 6"
  using assms by (auto simp: valid_datetime_def days_in_month_def split: if_splits)

lemma fromisoformat_isoformat:
  assumes "valid_datetime d"
  shows "fromisoformat (isoformat d) = Some d"
proof -
  note b = valid_datetime_widths [OF assms]
  have pd: "parse_date (isoformat d) = Some ((year d, month d, day d),
     ''T'' @ pad 2 (hour d) @ '':'' @ pad 2 (minute d) @ '':'' @ pad 2 (second d) @
     (if microsecond d = 0 then [] else ''.'' @ pad 6 (microsecond d)))"
    unfolding parse_date_def isoformat_def
    using b by (simp add: parse_digits_pad_fit)
  have frac: "microsecond d \<noteq> 0 \<Longrightarrow> parse_fraction (pad 6 (microsecond d)) = Some (microsecond d)"
    using parse_digits_pad_fit [OF b(7), of "[]"] by (simp add: parse_fraction_def length_pad)
  have pt: "parse_time (pad 2 (hour d) @ '':'' @ pad 2 (minute d) @ '':'' @ pad 2 (second d) @
     (if microsecond d = 0 then [] else ''.'' @ pad 6 (microsecond d)))
     = Some (hour d, minute d, second d, microsecond d)"
    unfolding parse_time_def
    using b frac parse_digits_pad_fit [OF b(6), of "[]"] by (simp add: parse_digits_pad_fit)
  have eq: "\<lparr>year = year d, month = month d, day = day d, hour = hour d, minute = minute d,
      second = second d, microsecond = microsecond d\<rparr> = d"
    by simp
  show ?thesis
    unfolding fromisoformat_def pd using pt assms by (simp add: eq)
qed

lemma fromisoformat_valid: "fromisoformat s = Some d \<Longrightarrow> valid_datetime d"
  by (auto simp: fromisoformat_def Let_def split: option.splits list.splits if_splits)

subsection \<open>The relative date label\<close>

text \<open>
  Claim C8. \<^verbatim>\<open>get_formatted_time\<close> computes yesterday as \<^verbatim>\<open>now.replace(day=now.day - 1)\<close>.
  On the first day of a month that is \<^verbatim>\<open>replace(day=0)\<close>, which raises \<^verbatim>\<open>ValueError\<close>:
  for every clock value \<open>now\<close>, the method raises instead of returning a label exactly when
  \<open>now\<close> is a first day of a month and the record is not dated that same day (a record of
  the same day is labelled before yesterday is computed).
\<close>

theorem get_formatted_time_raises_on_first_day:
  assumes "valid_datetime now"
  shows "get_formatted_time now self = Inl ValueError \<longleftrightarrow>
         day now = 1 \<and> date (record_date self) \<noteq> date now"
  using assms
  by (auto simp: get_formatted_time_def replace_day_def valid_datetime_def split: if_splits)

theorem get_formatted_time_raises_on_first_day_witness:
  "valid_datetime \<lparr>year = 2024, month = 3, day = 1, hour = 10, minute = 0, second = 0,
                   microsecond = 0\<rparr> \<and>
   get_formatted_time
     \<lparr>year = 2024, month = 3, day = 1, hour = 10, minute = 0, second = 0, microsecond = 0\<rparr>
     \<lparr>record_id = 1, amount = 5 :: int, record_type = EXPENSE,
      category = \<lparr>category_id = 1, name = None, icon = None, color = None\<rparr>,
      payment_method = CASH, rnote = [],
      record_date = \<lparr>year = 2024, month = 2, day = 29, hour = 18, minute = 30, second = 0,
                      microsecond = 0\<rparr>\<rparr>
   = Inl ValueError"
  using get_formatted_time_raises_on_first_day
    [of "\<lparr>year = 2024, month = 3, day = 1, hour = 10, minute = 0, second = 0,
          microsecond = 0\<rparr>"
        "\<lparr>record_id = 1, amount = 5 :: int, record_type = EXPENSE,
          category = \<lparr>category_id = 1, name = None, icon = None, color = None\<rparr>,
          payment_method = CASH, rnote = [],
          record_date = \<lparr>year = 2024, month = 2, day = 29, hour = 18, minute = 30, second = 0,
                          microsecond = 0\<rparr>\<rparr>"]
  by (simp add: valid_datetime_def days_in_month_def date_def)

subsection \<open>The enumerations are closed\<close>

lemma RecordType_value_inj: "RecordType_value a = RecordType_value b \<Longrightarrow> a = b"
  by (cases a; cases b) (simp_all add: label_income_def label_expense_def)

lemma PaymentMethod_value_inj: "PaymentMethod_value a = PaymentMethod_value b \<Longrightarrow> a = b"
  by (cases a; cases b) simp_all

lemma RecordType_call_value: "RecordType_call (RecordType_value t) = Inr t"
  by (cases t)
     (simp_all add: RecordType_call_def enum_call_def RecordType_members_def
        label_income_def label_expense_def)

lemma PaymentMethod_call_value: "PaymentMethod_call (PaymentMethod_value p) = Inr p"
  by (cases p) (simp_all add: PaymentMethod_call_def enum_call_def PaymentMethod_members_def)

lemma RecordType_call_Inr: "RecordType_call v = Inr t \<longleftrightarrow> v = RecordType_value t"
proof
  assume "RecordType_call v = Inr t"
  then show "v = RecordType_value t"
    by (cases t)
       (auto simp: RecordType_call_def enum_call_def RecordType_members_def
          split: if_splits)
next
  assume "v = RecordType_value t"
  then show "RecordType_call v = Inr t"
    by (simp add: RecordType_call_value)
qed

lemma PaymentMethod_call_Inr: "PaymentMethod_call v = Inr p \<longleftrightarrow> v = PaymentMethod_value p"
proof
  assume "PaymentMethod_call v = Inr p"
  then show "v = PaymentMethod_value p"
    by (cases p)
       (auto simp: PaymentMethod_call_def enum_call_def PaymentMethod_members_def
          split: if_splits)
next
  assume "v = PaymentMethod_value p"
  then show "PaymentMethod_call v = Inr p"
    by (simp add: PaymentMethod_call_value)
qed

lemma enum_call_outside: "v \<notin> range val \<Longrightarrow> enum_call val members v = Inl ValueError"
proof -
  assume out: "v \<notin> range val"
  have "find (\<lambda>m. val m = v) members = None"
    unfolding find_None_iff using out by blast
  then show ?thesis by (simp add: enum_call_def)
qed

lemma RecordType_call_outside:
  "v \<notin> range RecordType_value \<Longrightarrow> RecordType_call v = Inl ValueError"
  unfolding RecordType_call_def by (rule enum_call_outside)

lemma PaymentMethod_call_outside:
  "v \<notin> range PaymentMethod_value \<Longrightarrow> PaymentMethod_call v = Inl ValueError"
  unfolding PaymentMethod_call_def by (rule enum_call_outside)

lemma RecordType_labels: "range RecordType_value = {label_income, label_expense}"
proof -
  have "UNIV = {INCOME, EXPENSE}"
    using RecordType.exhaust by blast
  then have "range RecordType_value = RecordType_value ` {INCOME, EXPENSE}"
    by simp
  then show ?thesis by simp
qed

lemma PaymentMethod_labels:
  "range PaymentMethod_value =
     {PaymentMethod_value CASH, PaymentMethod_value WECHAT,
      PaymentMethod_value ALIPAY, PaymentMethod_value BANK_CARD}"
proof -
  have "UNIV = {CASH, WECHAT, ALIPAY, BANK_CARD}"
    using PaymentMethod.exhaust by blast
  then have "range PaymentMethod_value = PaymentMethod_value ` {CASH, WECHAT, ALIPAY, BANK_CARD}"
    by simp
  then show ?thesis by (simp del: PaymentMethod_value.simps)
qed

text \<open>
  Claim C9. A text outside the two labels of \<^verbatim>\<open>RecordType\<close> makes \<^verbatim>\<open>RecordType(v)\<close> raise
  \<^verbatim>\<open>ValueError\<close>, and a text outside the four labels of \<^verbatim>\<open>PaymentMethod\<close> makes
  \<^verbatim>\<open>PaymentMethod(v)\<close> raise it: no variant is returned by default. A text inside the set
  yields the one variant that carries it: the call returns \<open>t\<close> exactly when \<open>v\<close> is the label
  of \<open>t\<close>.
\<close>

theorem enum_lookup_closed:
  "(v \<notin> {label_income, label_expense} \<longrightarrow> RecordType_call v = Inl ValueError) \<and>
   (v \<notin> {PaymentMethod_value CASH, PaymentMethod_value WECHAT,
          PaymentMethod_value ALIPAY, PaymentMethod_value BANK_CARD}
      \<longrightarrow> PaymentMethod_call v = Inl ValueError) \<and>
   (RecordType_call v = Inr t \<longleftrightarrow> v = RecordType_value t) \<and>
   (PaymentMethod_call v = Inr p \<longleftrightarrow> v = PaymentMethod_value p)"
proof (intro conjI impI)
  assume "v \<notin> {label_income, label_expense}"
  then show "RecordType_call v = Inl ValueError"
    by (intro RecordType_call_outside) (simp only: RecordType_labels, simp)
next
  assume "v \<notin> {PaymentMethod_value CASH, PaymentMethod_value WECHAT,
          PaymentMethod_value ALIPAY, PaymentMethod_value BANK_CARD}"
  then show "PaymentMethod_call v = Inl ValueError"
    by (intro PaymentMethod_call_outside) (simp only: PaymentMethod_labels, simp)
next
  show "RecordType_call v = Inr t \<longleftrightarrow> v = RecordType_value t"
    by (rule RecordType_call_Inr)
next
  show "PaymentMethod_call v = Inr p \<longleftrightarrow> v = PaymentMethod_value p"
    by (rule PaymentMethod_call_Inr)
qed

theorem enum_lookup_closed_witness:
  "RecordType_call ''Cash'' = Inl ValueError \<and>
   PaymentMethod_call ''Cash'' = Inl ValueError \<and>
   RecordType_call label_expense = Inr EXPENSE \<and>
   PaymentMethod_call (PaymentMethod_value ALIPAY) = Inr ALIPAY"
  using enum_lookup_closed [of "''Cash''" EXPENSE ALIPAY]
    enum_lookup_closed [of label_expense EXPENSE ALIPAY]
    enum_lookup_closed [of "PaymentMethod_value ALIPAY" EXPENSE ALIPAY]
  by (simp add: label_income_def label_expense_def)

subsection \<open>Ordering and decoding of rows\<close>

lemma set_insert_desc: "set (insert_desc key x ys) = insert x (set ys)"
  by (induction ys) auto

lemma mset_insert_desc: "mset (insert_desc key x ys) = add_mset x (mset ys)"
  by (induction ys) auto

lemma mset_order_by_desc: "mset (order_by_desc key rows) = mset rows"
  by (induction rows) (simp_all add: order_by_desc_def mset_insert_desc)

lemma set_order_by_desc: "set (order_by_desc key rows) = set rows"
  using mset_order_by_desc [of key rows] by (metis set_mset_mset)

lemma length_order_by_desc: "length (order_by_desc key rows) = length rows"
  using mset_order_by_desc [of key rows] by (metis size_mset)

lemma sorted_insert_desc:
  "sorted_wrt (\<lambda>a b. key b \<le> key a) ys \<Longrightarrow> sorted_wrt (\<lambda>a b. key b \<le> key a) (insert_desc key x ys)"
  by (induction ys) (auto simp: set_insert_desc)

lemma sorted_order_by_desc: "sorted_wrt (\<lambda>a b. key b \<le> key a) (order_by_desc key rows)"
  by (induction rows) (simp_all add: order_by_desc_def sorted_insert_desc)

lemma rows_to_records_map:
  "(\<And>jr. jr \<in> set rows \<Longrightarrow> row_to_record now jr = Inr (g jr)) \<Longrightarrow>
   rows_to_records now rows = Inr (map g rows)"
  by (induction rows) simp_all

lemma row_ok_labels:
  assumes "row_ok r"
  shows "\<exists>t p d. row_type r = RecordType_value t \<and> row_payment_method r = PaymentMethod_value p
     \<and> row_record_date r = isoformat d \<and> valid_datetime d"
proof -
  from assms obtain t where t: "row_type r = RecordType_value t"
    by (auto simp: row_ok_def)
  from assms obtain p where p: "row_payment_method r = PaymentMethod_value p"
    by (auto simp: row_ok_def)
  from assms obtain d where d: "fromisoformat (row_record_date r) = Some d" "isoformat d = row_record_date r"
    by (auto simp: row_ok_def stored_date_ok_def split: option.splits)
  from d(1) have "valid_datetime d" by (rule fromisoformat_valid)
  with t p d show ?thesis by metis
qed

lemma row_to_record_labels:
  assumes "row_type (fst jr) = RecordType_value t"
    and "row_payment_method (fst jr) = PaymentMethod_value p"
  shows "row_to_record now jr =
     Inr \<lparr>record_id = row_id (fst jr), amount = row_amount (fst jr), record_type = t,
          category = \<lparr>category_id = row_category_id (fst jr),
                      name = map_option cat_name (snd jr),
                      icon = map_option cat_icon (snd jr),
                      color = map_option cat_color (snd jr)\<rparr>,
          payment_method = p, rnote = row_note (fst jr),
          record_date = (case fromisoformat (row_record_date (fst jr)) of
                           None \<Rightarrow> now | Some d \<Rightarrow> d)\<rparr>"
  using assms
  by (simp add: row_to_record_def Let_def RecordType_call_value PaymentMethod_call_value
        Record_init_def)

lemma row_to_record_row_ok:
  assumes "row_ok (fst jr)"
  shows "row_to_record now jr = Inr (projr (row_to_record now jr))"
proof -
  from row_ok_labels [OF assms] obtain t p where
    "row_type (fst jr) = RecordType_value t" "row_payment_method (fst jr) = PaymentMethod_value p"
    by blast
  then show ?thesis
    by (simp add: row_to_record_labels)
qed

lemma rows_to_records_rows_ok:
  assumes "list_all (\<lambda>jr. row_ok (fst jr)) rows"
  shows "rows_to_records now rows = Inr (map (\<lambda>jr. projr (row_to_record now jr)) rows)"
  using assms by (intro rows_to_records_map row_to_record_row_ok) (simp add: list_all_iff)

lemma left_join_rows_ok:
  "list_all row_ok rows \<Longrightarrow> list_all (\<lambda>jr. row_ok (fst jr)) (left_join cats rows)"
  by (simp add: left_join_def list_all_iff)

lemma list_all_order_by_desc: "list_all P (order_by_desc key rows) = list_all P rows"
  by (simp add: list_all_iff set_order_by_desc)

subsection \<open>The rows of every state of the store are well formed\<close>

lemma next_rowid_pos: "0 < next_rowid db"
proof -
  have "0 \<le> fold max xs (a :: int)" if "0 \<le> a" for xs a
    using that by (induction xs arbitrary: a) simp_all
  then have "0 \<le> fold max (map row_id (records db)) 0" by simp
  then show ?thesis by (simp add: next_rowid_def)
qed

lemma add_record_ok:
  assumes "rows_ok db" "valid_datetime (record_date R)"
  shows "rows_ok (snd (add_record fault db R))"
proof (cases fault)
  case None
  have "stored_date_ok (isoformat (record_date R))"
    by (simp add: stored_date_ok_def fromisoformat_isoformat [OF assms(2)])
  moreover have "RecordType_value (record_type R) \<in> set (map RecordType_value RecordType_members)"
    by (cases "record_type R") (simp_all add: RecordType_members_def)
  moreover have "PaymentMethod_value (payment_method R)
      \<in> set (map PaymentMethod_value PaymentMethod_members)"
    by (cases "payment_method R") (simp_all add: PaymentMethod_members_def)
  ultimately show ?thesis
    using assms(1) None next_rowid_pos [of db]
    by (simp add: add_record_def add_record_try_def rows_ok_def row_ok_def)
next
  case (Some e)
  with assms(1) show ?thesis
    by (simp add: add_record_def add_record_try_def)
qed

lemma init_database_rows_ok: "rows_ok (init_database fault db) = rows_ok db"
  by (cases fault) (simp_all add: init_database_def init_database_try_def rows_ok_def)

lemma reachable_rows_ok: "reachable db \<Longrightarrow> rows_ok db"
proof (induction rule: reachable.induct)
  case fresh
  show ?case by (simp add: rows_ok_def empty_database_def)
next
  case (init db fault)
  then show ?case by (simp add: init_database_rows_ok)
next
  case (add db r fault)
  then show ?case by (simp add: add_record_ok)
qed

subsection \<open>Insertion, then retrieval\<close>

text \<open>
  Claim C1. Let the rows of the database be well formed (as they are in every state of
  the store) and let \<open>R\<close> be a record with a valid date. Then \<^verbatim>\<open>add_record(R)\<close>, when
  \<^verbatim>\<open>sqlite3\<close> raises nothing, returns \<^verbatim>\<open>True\<close>, and \<^verbatim>\<open>get_all_records()\<close> on the new state
  returns a list with a record that has the amount, type, category id, payment method,
  note and date of \<open>R\<close> and an id above zero; its category name is the one the table
  \<^verbatim>\<open>categories\<close> has for the id. Neither the sign of the amount nor the presence of the
  category is needed for that.
\<close>

theorem add_record_then_get_all_records:
  assumes "rows_ok db" and "valid_datetime (record_date R)"
  shows "fst (add_record None db R) \<and>
    (\<exists>r \<in> set (get_all_records now None (snd (add_record None db R)) None).
       amount r = amount R \<and> record_type r = record_type R \<and>
       category_id (category r) = category_id (category R) \<and>
       payment_method r = payment_method R \<and> rnote r = rnote R \<and>
       record_date r = record_date R \<and> 0 < record_id r \<and>
       name (category r) =
         map_option cat_name (categories db (category_id (category R))))"
proof -
  let ?db' = "snd (add_record None db R)"
  let ?new = "\<lparr>row_id = next_rowid db, row_amount = amount R,
                row_type = RecordType_value (record_type R),
                row_category_id = category_id (category R),
                row_payment_method = PaymentMethod_value (payment_method R),
                row_note = rnote R, row_record_date = isoformat (record_date R)\<rparr>"
  let ?jr = "(?new, categories db (category_id (category R)))"
  let ?rows = "order_by_desc (\<lambda>jr. row_record_date (fst jr))
                 (left_join (categories ?db') (records ?db'))"
  have ok: "rows_ok ?db'" using assms by (rule add_record_ok)
  have recs: "records ?db' = records db @ [?new]" "categories ?db' = categories db"
    by (simp_all add: add_record_def add_record_try_def)
  have all_ok: "list_all (\<lambda>jr. row_ok (fst jr)) ?rows"
    using ok by (simp add: list_all_order_by_desc left_join_rows_ok rows_ok_def)
  have res: "get_all_records now None ?db' None = map (\<lambda>jr. projr (row_to_record now jr)) ?rows"
    by (simp add: get_all_records_def get_all_records_try_def Let_def
          rows_to_records_rows_ok [OF all_ok])
  have "?jr \<in> set ?rows"
    by (simp add: set_order_by_desc recs left_join_def)
  then have mem: "projr (row_to_record now ?jr) \<in> set (get_all_records now None ?db' None)"
    unfolding res set_map by (rule imageI)
  have dec: "row_to_record now ?jr =
     Inr \<lparr>record_id = next_rowid db, amount = amount R, record_type = record_type R,
          category = \<lparr>category_id = category_id (category R),
                      name = map_option cat_name (categories db (category_id (category R))),
                      icon = map_option cat_icon (categories db (category_id (category R))),
                      color = map_option cat_color (categories db (category_id (category R)))\<rparr>,
          payment_method = payment_method R, rnote = rnote R,
          record_date = record_date R\<rparr>"
    using row_to_record_labels [of ?jr "record_type R" "payment_method R" now]
    by (simp add: fromisoformat_isoformat [OF assms(2)])
  have "fst (add_record None db R)"
    by (simp add: add_record_def add_record_try_def)
  moreover have "\<exists>r \<in> set (get_all_records now None ?db' None).
       amount r = amount R \<and> record_type r = record_type R \<and>
       category_id (category r) = category_id (category R) \<and>
       payment_method r = payment_method R \<and> rnote r = rnote R \<and>
       record_date r = record_date R \<and> 0 < record_id r \<and>
       name (category r) =
         map_option cat_name (categories db (category_id (category R)))"
    using next_rowid_pos [of db] by (intro bexI [OF _ mem]) (simp add: dec)
  ultimately show ?thesis by simp
qed

theorem add_record_then_get_all_records_witness:
  "rows_ok (init_database None (empty_database :: int database)) \<and>
   valid_datetime \<lparr>year = 2024, month = 5, day = 17, hour = 12, minute = 30, second = 45,
                   microsecond = 0\<rparr> \<and>
   fst (add_record None (init_database None empty_database)
          \<lparr>record_id = 0, amount = 25680 :: int, record_type = EXPENSE,
           category = \<lparr>category_id = 2, name = None, icon = None, color = None\<rparr>,
           payment_method = ALIPAY, rnote = ''supermarket'',
           record_date = \<lparr>year = 2024, month = 5, day = 17, hour = 12, minute = 30,
                           second = 45, microsecond = 0\<rparr>\<rparr>) \<and>
   (\<exists>r \<in> set (get_all_records
                 \<lparr>year = 2024, month = 6, day = 1, hour = 0, minute = 0, second = 0,
                  microsecond = 0\<rparr> None
                 (snd (add_record None (init_database None empty_database)
                    \<lparr>record_id = 0, amount = 25680 :: int, record_type = EXPENSE,
                     category = \<lparr>category_id = 2, name = None, icon = None, color = None\<rparr>,
                     payment_method = ALIPAY, rnote = ''supermarket'',
                     record_date = \<lparr>year = 2024, month = 5, day = 17, hour = 12, minute = 30,
                                     second = 45, microsecond = 0\<rparr>\<rparr>)) None).
      amount r = 25680 \<and> record_type r = EXPENSE \<and> category_id (category r) = 2 \<and>
      payment_method r = ALIPAY \<and> rnote r = ''supermarket'' \<and>
      record_date r = \<lparr>year = 2024, month = 5, day = 17, hour = 12, minute = 30,
                        second = 45, microsecond = 0\<rparr> \<and> 0 < record_id r)"
proof -
  have h1: "rows_ok (init_database None (empty_database :: int database))"
    by (simp only: init_database_rows_ok) (simp add: rows_ok_def empty_database_def)
  have h2: "valid_datetime \<lparr>year = 2024, month = 5, day = 17, hour = 12, minute = 30,
      second = 45, microsecond = 0\<rparr>"
    by (simp add: valid_datetime_def days_in_month_def)
  show ?thesis
    using h1 h2
      add_record_then_get_all_records [of "init_database None (empty_database :: int database)"
        "\<lparr>record_id = 0, amount = 25680 :: int, record_type = EXPENSE,
           category = \<lparr>category_id = 2, name = None, icon = None, color = None\<rparr>,
           payment_method = ALIPAY, rnote = ''supermarket'',
           record_date = \<lparr>year = 2024, month = 5, day = 17, hour = 12, minute = 30,
                           second = 45, microsecond = 0\<rparr>\<rparr>"
        "\<lparr>year = 2024, month = 6, day = 1, hour = 0, minute = 0, second = 0,
          microsecond = 0\<rparr>"]
    by auto
qed

subsection \<open>The order of the stored dates is their order in time\<close>

lemma digit_less: "a < 10 \<Longrightarrow> b < 10 \<Longrightarrow> digit a < digit b \<longleftrightarrow> a < b"
  by (simp add: digit_def less_char_def)

lemma digit_eq: "a < 10 \<Longrightarrow> b < 10 \<Longrightarrow> digit a = digit b \<longleftrightarrow> a = b"
  using digit_val_digit by (metis option.inject)

lemma lex_arith:
  fixes P :: nat
  assumes "ra < P" "rb < P"
  shows "da * P + ra < db * P + rb \<longleftrightarrow> da < db \<or> da = db \<and> ra < rb"
proof (cases da db rule: linorder_cases)
  case less
  then have "Suc da \<le> db" by simp
  then have "Suc da * P \<le> db * P" by (rule mult_le_mono1)
  then have "da * P + ra < db * P + rb" using assms by simp
  with less show ?thesis by simp
next
  case equal
  then show ?thesis by simp
next
  case greater
  then have "Suc db \<le> da" by simp
  then have "Suc db * P \<le> da * P" by (rule mult_le_mono1)
  then have "\<not> da * P + ra < db * P + rb" using assms by simp
  with greater show ?thesis by simp
qed

lemma mod_pow_split: "(n::nat) mod 10 ^ Suc w = (n div 10 ^ w mod 10) * 10 ^ w + n mod 10 ^ w"
proof -
  have "n mod (10 ^ w * 10) = 10 ^ w * (n div 10 ^ w mod 10) + n mod 10 ^ w"
    by (rule mod_mult2_eq)
  then show ?thesis by (simp only: power_Suc2 mult.commute)
qed

lemma pad_eq_iff: "pad w a = pad w b \<longleftrightarrow> a mod 10 ^ w = b mod 10 ^ w"
proof
  assume "pad w a = pad w b"
  then have "parse_digits w (pad w a @ []) = parse_digits w (pad w b @ [])" by simp
  then show "a mod 10 ^ w = b mod 10 ^ w" by (simp only: parse_digits_pad) simp
next
  assume "a mod 10 ^ w = b mod 10 ^ w"
  then show "pad w a = pad w b"
  proof (induction w)
    case 0
    show ?case by simp
  next
    case (Suc w)
    have "a mod 10 ^ Suc w mod 10 ^ w = b mod 10 ^ Suc w mod 10 ^ w"
      using Suc.prems by simp
    then have low: "a mod 10 ^ w = b mod 10 ^ w"
      by (simp add: mod_mod_cancel)
    have "a mod 10 ^ Suc w div 10 ^ w = b mod 10 ^ Suc w div 10 ^ w"
      using Suc.prems by simp
    then have "a div 10 ^ w mod 10 = b div 10 ^ w mod 10"
      by (simp only: mod_pow_split) simp
    with low Suc.IH show ?case by simp
  qed
qed

lemma pad_less_iff: "pad w a < pad w b \<longleftrightarrow> a mod 10 ^ w < b mod 10 ^ w"
proof (induction w)
  case 0
  show ?case by simp
next
  case (Suc w)
  let ?da = "a div 10 ^ w mod 10" and ?db = "b div 10 ^ w mod 10"
  have "pad (Suc w) a < pad (Suc w) b \<longleftrightarrow>
      digit ?da < digit ?db \<or> digit ?da = digit ?db \<and> pad w a < pad w b"
    by simp
  also have "\<dots> \<longleftrightarrow> ?da < ?db \<or> ?da = ?db \<and> a mod 10 ^ w < b mod 10 ^ w"
    by (simp add: digit_less digit_eq Suc.IH)
  also have "\<dots> \<longleftrightarrow> ?da * 10 ^ w + a mod 10 ^ w < ?db * 10 ^ w + b mod 10 ^ w"
    by (rule lex_arith [symmetric]) simp_all
  finally show ?case by (simp only: mod_pow_split)
qed

lemma pad_less_fit: "a < 10 ^ w \<Longrightarrow> b < 10 ^ w \<Longrightarrow> pad w a < pad w b \<longleftrightarrow> a < b"
  by (simp add: pad_less_iff)

lemma pad_eq_fit: "a < 10 ^ w \<Longrightarrow> b < 10 ^ w \<Longrightarrow> pad w a = pad w b \<longleftrightarrow> a = b"
  by (simp add: pad_eq_iff)

lemma append_less_same_length:
  fixes xs ys :: "'a::linorder list"
  assumes "length xs = length ys"
  shows "xs @ u < ys @ v \<longleftrightarrow> xs < ys \<or> xs = ys \<and> u < v"
  using assms by (induction xs ys rule: list_induct2) auto

lemma append_le_same_length:
  fixes xs ys :: "'a::linorder list"
  assumes "length xs = length ys"
  shows "xs @ u \<le> ys @ v \<longleftrightarrow> xs < ys \<or> xs = ys \<and> u \<le> v"
  using assms by (induction xs ys rule: list_induct2) auto

lemma pad_le_fit: "a < 10 ^ w \<Longrightarrow> b < 10 ^ w \<Longrightarrow> pad w a \<le> pad w b \<longleftrightarrow> a \<le> b"
  using pad_less_fit [of a w b] pad_eq_fit [of a w b] by (auto simp: le_less)

lemma lex_le_prod: "(x1 :: nat, y1 :: 'b::linorder) \<le> (x2, y2) \<longleftrightarrow> x1 < x2 \<or> x1 = x2 \<and> y1 \<le> y2"
  by auto

lemma fraction_le:
  assumes "ua < 10 ^ 6" "ub < 10 ^ 6"
  shows "(if ua = 0 then [] else CHR ''.'' # pad 6 ua)
       \<le> (if ub = 0 then [] else CHR ''.'' # pad 6 ub)
     \<longleftrightarrow> ua \<le> ub"
  using assms pad_le_fit [of ua 6 ub] by auto

lemma isoformat_le_iff:
  assumes "valid_datetime a" "valid_datetime b"
  shows "isoformat a \<le> isoformat b \<longleftrightarrow> dt_key a \<le> dt_key b"
proof -
  note wa = valid_datetime_widths [OF assms(1)]
  note wb = valid_datetime_widths [OF assms(2)]
  have "isoformat a \<le> isoformat b \<longleftrightarrow>
    year a < year b \<or> year a = year b \<and>
    (month a < month b \<or> month a = month b \<and>
    (day a < day b \<or> day a = day b \<and>
    (hour a < hour b \<or> hour a = hour b \<and>
    (minute a < minute b \<or> minute a = minute b \<and>
    (second a < second b \<or> second a = second b \<and> microsecond a \<le> microsecond b)))))"
    unfolding isoformat_def
    by (simp only: append_le_same_length length_pad pad_less_fit wa wb pad_eq_fit
          fraction_le append_Cons append_Nil Cons_le_Cons simp_thms less_irrefl)
  then show ?thesis
    by (simp only: dt_key_def lex_le_prod)
qed

subsection \<open>Retrieval with a limit\<close>

lemma row_to_record_date:
  assumes "row_ok (fst jr)"
  shows "valid_datetime (record_date (projr (row_to_record now jr)))"
    and "isoformat (record_date (projr (row_to_record now jr))) = row_record_date (fst jr)"
proof -
  from row_ok_labels [OF assms] obtain t p d where
    lab: "row_type (fst jr) = RecordType_value t"
      "row_payment_method (fst jr) = PaymentMethod_value p"
    and d: "row_record_date (fst jr) = isoformat d" "valid_datetime d"
    by blast
  have "record_date (projr (row_to_record now jr)) = d"
    by (simp add: row_to_record_labels [OF lab] d fromisoformat_isoformat)
  with d show "valid_datetime (record_date (projr (row_to_record now jr)))"
    and "isoformat (record_date (projr (row_to_record now jr))) = row_record_date (fst jr)"
    by simp_all
qed

lemma decoded_dates_descending:
  assumes "list_all (\<lambda>jr. row_ok (fst jr)) rows"
    and "sorted_wrt (\<lambda>a b. row_record_date (fst b) \<le> row_record_date (fst a)) rows"
  shows "sorted_wrt (\<lambda>a b. dt_key (record_date b) \<le> dt_key (record_date a))
           (map (\<lambda>jr. projr (row_to_record now jr)) rows)"
proof -
  have "sorted_wrt (\<lambda>a b. dt_key (record_date (projr (row_to_record now b)))
            \<le> dt_key (record_date (projr (row_to_record now a)))) rows"
  proof (rule sorted_wrt_mono_rel [OF _ assms(2)])
    fix a b
    assume "a \<in> set rows" "b \<in> set rows"
      and le: "row_record_date (fst b) \<le> row_record_date (fst a)"
    then have ok: "row_ok (fst a)" "row_ok (fst b)"
      using assms(1) by (simp_all add: list_all_iff)
    show "dt_key (record_date (projr (row_to_record now b)))
            \<le> dt_key (record_date (projr (row_to_record now a)))"
      using le row_to_record_date [OF ok(1), of now] row_to_record_date [OF ok(2), of now]
        isoformat_le_iff [of "record_date (projr (row_to_record now b))"
          "record_date (projr (row_to_record now a))"]
      by simp
  qed
  then show ?thesis by (simp add: sorted_wrt_map)
qed

lemma get_all_records_unlimited:
  assumes "rows_ok db"
  shows "get_all_records now None db None =
     map (\<lambda>jr. projr (row_to_record now jr))
       (order_by_desc (\<lambda>jr. row_record_date (fst jr)) (left_join (categories db) (records db)))"
proof -
  have "list_all (\<lambda>jr. row_ok (fst jr))
     (order_by_desc (\<lambda>jr. row_record_date (fst jr)) (left_join (categories db) (records db)))"
    using assms by (simp add: list_all_order_by_desc left_join_rows_ok rows_ok_def)
  then show ?thesis
    by (simp add: get_all_records_def get_all_records_try_def Let_def rows_to_records_rows_ok)
qed

lemma get_all_records_limited:
  assumes "rows_ok db" "0 < N" "N < 2 ^ 63"
  shows "get_all_records now None db (Some N) = take (nat N) (get_all_records now None db None)"
proof -
  let ?rows = "order_by_desc (\<lambda>jr. row_record_date (fst jr))
                 (left_join (categories db) (records db))"
  have all: "list_all (\<lambda>jr. row_ok (fst jr)) ?rows"
    using assms(1) by (simp add: list_all_order_by_desc left_join_rows_ok rows_ok_def)
  then have "list_all (\<lambda>jr. row_ok (fst jr)) (take (nat N) ?rows)"
    by (auto simp: list_all_iff dest: in_set_takeD)
  then have "get_all_records now None db (Some N) =
      map (\<lambda>jr. projr (row_to_record now jr)) (take (nat N) ?rows)"
    using assms(2,3)
    by (simp add: get_all_records_def get_all_records_try_def Let_def sql_limit_def
          rows_to_records_rows_ok)
  then show ?thesis
    by (simp add: get_all_records_unlimited [OF assms(1)] take_map)
qed

lemma get_all_records_zero_limit:
  "get_all_records now fault db (Some 0) = get_all_records now fault db None"
  by (cases fault) (simp_all add: get_all_records_def get_all_records_try_def Let_def)

lemma valid_example_date: "valid_datetime example_date"
  by (simp add: example_date_def valid_datetime_def days_in_month_def)

lemma rows_ok_fresh: "rows_ok (init_database fault empty_database)"
  by (simp only: init_database_rows_ok) (simp add: rows_ok_def empty_database_def)

lemma example_db_rows_ok: "rows_ok example_db"
  unfolding example_db_def
  by (intro add_record_ok rows_ok_fresh) (simp_all add: example_record_def valid_example_date)

lemma example_db_records:
  "records example_db =
     [\<lparr>row_id = 1, row_amount = 3900, row_type = label_expense, row_category_id = 4,
       row_payment_method = PaymentMethod_value CASH, row_note = ''cinema'',
       row_record_date = isoformat example_date\<rparr>,
      \<lparr>row_id = 2, row_amount = 3900, row_type = label_expense, row_category_id = 4,
       row_payment_method = PaymentMethod_value CASH, row_note = ''cinema'',
       row_record_date = isoformat example_date\<rparr>]"
  by (simp add: example_db_def add_record_def add_record_try_def init_database_def
        init_database_try_def empty_database_def example_record_def next_rowid_def
        del: PaymentMethod_value.simps)

lemma example_db_all:
  "map record_date (get_all_records example_now None example_db None) = [example_date, example_date]"
  unfolding get_all_records_unlimited [OF example_db_rows_ok] example_db_records
  by (simp add: left_join_def order_by_desc_def
        row_to_record_labels [of _ EXPENSE CASH] fromisoformat_isoformat valid_example_date
        del: PaymentMethod_value.simps)

text \<open>
  Claim C4, as stated, fails for a limit that is not positive and for "strictly": with
  \<^verbatim>\<open>limit=0\<close> the test \<^verbatim>\<open>if limit:\<close> is false, no \<^verbatim>\<open>LIMIT\<close> is added and both records of
  the store are returned; and two records of the same date follow each other in the
  result.
\<close>

theorem get_all_records_limit_counterexample:
  "\<not> length (get_all_records example_now None example_db (Some 0)) \<le> nat 0 \<and>
   \<not> sorted_wrt (\<lambda>a b. dt_key (record_date b) < dt_key (record_date a))
       (get_all_records example_now None example_db (Some 2))"
proof -
  have "length (map record_date (get_all_records example_now None example_db None)) = 2"
    by (simp only: example_db_all) simp
  then have len: "length (get_all_records example_now None example_db None) = 2"
    by simp
  have two: "get_all_records example_now None example_db (Some 2) =
      get_all_records example_now None example_db None"
    using len by (simp add: get_all_records_limited [OF example_db_rows_ok])
  have "\<not> sorted_wrt (\<lambda>a b. dt_key b < dt_key a)
       (map record_date (get_all_records example_now None example_db None))"
    by (simp only: example_db_all) simp
  then have "\<not> sorted_wrt (\<lambda>a b. dt_key (record_date b) < dt_key (record_date a))
       (get_all_records example_now None example_db None)"
    by (simp add: sorted_wrt_map)
  with len two show ?thesis
    by (simp add: get_all_records_zero_limit)
qed

text \<open>
  Claim C4, amended. For every limit \<open>N\<close> with \<open>0 < N < 2\<^sup>6\<^sup>3\<close> (a positive bound that
  SQLite accepts) and every state with well-formed rows, \<^verbatim>\<open>get_all_records(limit=N)\<close>
  returns at most \<open>N\<close> records, ordered by date from the most recent on, where records of
  equal date may follow each other, and the result is the list of the first \<open>N\<close> records
  of \<^verbatim>\<open>get_all_records()\<close>.
\<close>

theorem get_all_records_limit:
  assumes "rows_ok db" and "0 < N" and "N < 2 ^ 63"
  shows "length (get_all_records now None db (Some N)) \<le> nat N \<and>
    sorted_wrt (\<lambda>a b. dt_key (record_date b) \<le> dt_key (record_date a))
      (get_all_records now None db (Some N)) \<and>
    get_all_records now None db (Some N) = take (nat N) (get_all_records now None db None)"
proof -
  let ?rows = "order_by_desc (\<lambda>jr. row_record_date (fst jr))
                 (left_join (categories db) (records db))"
  have all: "list_all (\<lambda>jr. row_ok (fst jr)) ?rows"
    using assms(1) by (simp add: list_all_order_by_desc left_join_rows_ok rows_ok_def)
  have "sorted_wrt (\<lambda>a b. dt_key (record_date b) \<le> dt_key (record_date a))
      (get_all_records now None db None)"
    unfolding get_all_records_unlimited [OF assms(1)]
    using all sorted_order_by_desc [of "\<lambda>jr. row_record_date (fst jr)"]
    by (rule decoded_dates_descending)
  then have "sorted_wrt (\<lambda>a b. dt_key (record_date b) \<le> dt_key (record_date a))
      (take (nat N) (get_all_records now None db None))"
    by (rule sorted_wrt_take)
  then show ?thesis
    by (simp add: get_all_records_limited [OF assms])
qed

theorem get_all_records_limit_witness:
  "rows_ok example_db \<and> (0 :: int) < 1 \<and> (1 :: int) < 2 ^ 63 \<and>
   length (get_all_records example_now None example_db (Some 1)) \<le> nat 1 \<and>
   sorted_wrt (\<lambda>a b. dt_key (record_date b) \<le> dt_key (record_date a))
      (get_all_records example_now None example_db (Some 1)) \<and>
   get_all_records example_now None example_db (Some 1) =
     take (nat 1) (get_all_records example_now None example_db None)"
proof -
  have pos: "(0 :: int) < 1" and bound: "(1 :: int) < 2 ^ 63" by simp_all
  show ?thesis
    using get_all_records_limit [OF example_db_rows_ok pos bound, of example_now]
      example_db_rows_ok pos bound
    by blast
qed

subsection \<open>Retrieval by date range\<close>

lemma filter_left_join:
  "filter (\<lambda>jr. P (fst jr)) (left_join cats rows) = left_join cats (filter P rows)"
  by (induction rows) (simp_all add: left_join_def)

lemma row_to_record_fields:
  assumes "row_ok (fst jr)"
  shows "record_id (projr (row_to_record now jr)) = row_id (fst jr)"
    and "amount (projr (row_to_record now jr)) = row_amount (fst jr)"
    and "RecordType_value (record_type (projr (row_to_record now jr))) = row_type (fst jr)"
proof -
  from row_ok_labels [OF assms] obtain t p where
    lab: "row_type (fst jr) = RecordType_value t"
      "row_payment_method (fst jr) = PaymentMethod_value p"
    by blast
  show "record_id (projr (row_to_record now jr)) = row_id (fst jr)"
    and "amount (projr (row_to_record now jr)) = row_amount (fst jr)"
    and "RecordType_value (record_type (projr (row_to_record now jr))) = row_type (fst jr)"
    by (simp_all add: row_to_record_labels [OF lab] lab(1))
qed

lemma get_records_by_date_range_rows_ok:
  assumes "rows_ok db"
  shows "get_records_by_date_range now None db start_date end_date type_filter =
     map (\<lambda>jr. projr (row_to_record now jr))
       (order_by_desc (\<lambda>jr. row_record_date (fst jr))
          (left_join (categories db)
             (filter (where_clause start_date end_date type_filter) (records db))))"
proof -
  have "list_all row_ok (filter (where_clause start_date end_date type_filter) (records db))"
    using assms by (simp add: rows_ok_def list_all_iff)
  then have "list_all (\<lambda>jr. row_ok (fst jr))
     (order_by_desc (\<lambda>jr. row_record_date (fst jr))
        (left_join (categories db)
           (filter (where_clause start_date end_date type_filter) (records db))))"
    by (simp add: list_all_order_by_desc left_join_rows_ok)
  then show ?thesis
    by (simp add: get_records_by_date_range_def get_records_by_date_range_try_def
          filter_left_join rows_to_records_rows_ok)
qed

text \<open>
  Claim C6. The filter \<^verbatim>\<open>record_date BETWEEN ? AND ?\<close> is inclusive at both ends. Let the
  rows be well formed and \<open>start_date\<close> be no later than \<open>end_date\<close>. A stored record
  whose date text is \<^verbatim>\<open>start_date.isoformat()\<close> or \<^verbatim>\<open>end_date.isoformat()\<close>, and whose type
  the type filter admits (no filter, or the filter is its type), is in the result of
  \<^verbatim>\<open>get_records_by_date_range\<close>: a record with its id and its date is returned.
\<close>

theorem date_range_includes_endpoints:
  assumes "rows_ok db"
    and "valid_datetime start_date" and "valid_datetime end_date"
    and "dt_key start_date \<le> dt_key end_date"
    and "r \<in> set (records db)"
    and "row_record_date r = isoformat start_date \<or> row_record_date r = isoformat end_date"
    and "type_param type_filter = None \<or> type_param type_filter = Some (row_type r)"
  shows "\<exists>record \<in> set (get_records_by_date_range now None db start_date end_date type_filter).
           record_id record = row_id r \<and> isoformat (record_date record) = row_record_date r"
proof -
  let ?jr = "(r, categories db (row_category_id r))"
  let ?rows = "order_by_desc (\<lambda>jr. row_record_date (fst jr))
          (left_join (categories db)
             (filter (where_clause start_date end_date type_filter) (records db)))"
  have se: "isoformat start_date \<le> isoformat end_date"
    using assms(2-4) by (simp add: isoformat_le_iff)
  have "where_clause start_date end_date type_filter r"
    using assms(6,7) se by (auto simp: where_clause_def)
  with assms(5) have "?jr \<in> set ?rows"
    by (simp add: set_order_by_desc left_join_def)
  then have mem: "projr (row_to_record now ?jr)
      \<in> set (get_records_by_date_range now None db start_date end_date type_filter)"
    unfolding get_records_by_date_range_rows_ok [OF assms(1)] set_map by (rule imageI)
  have ok: "row_ok (fst ?jr)"
    using assms(1,5) by (simp add: rows_ok_def list_all_iff)
  show ?thesis
    using row_to_record_fields(1) [OF ok, of now] row_to_record_date(2) [OF ok, of now]
    by (intro bexI [OF _ mem]) simp
qed

theorem date_range_includes_endpoints_witness:
  "rows_ok example_db \<and> valid_datetime example_date \<and> dt_key example_date \<le> dt_key example_date \<and>
   hd (records example_db) \<in> set (records example_db) \<and>
   row_record_date (hd (records example_db)) = isoformat example_date \<and>
   type_param (Some label_all) = None \<and>
   (\<exists>record \<in> set (get_records_by_date_range example_now None example_db example_date
                      example_date (Some label_all)).
      record_id record = 1 \<and> isoformat (record_date record) = isoformat example_date)"
proof -
  have h: "hd (records example_db) \<in> set (records example_db)"
    "row_record_date (hd (records example_db)) = isoformat example_date"
    "row_id (hd (records example_db)) = 1"
    by (simp_all add: example_db_records)
  have t: "type_param (Some label_all) = None"
    by (simp add: type_param_def)
  show ?thesis
    using date_range_includes_endpoints [OF example_db_rows_ok valid_example_date
        valid_example_date order_refl h(1) disjI1 [OF h(2)] disjI1 [OF t], of example_now]
      example_db_rows_ok valid_example_date h t
    by auto
qed

subsection \<open>The summary by type\<close>

lemma fold_update_keys_apply:
  "fold (\<lambda>k m. m(k \<mapsto> f k)) ks m0 x = (if x \<in> set ks then Some (f x) else m0 x)"
  by (induction ks arbitrary: m0) simp_all

lemma fold_update_keys:
  "fold (\<lambda>k m. m(k \<mapsto> f k)) ks m0 = (\<lambda>k. if k \<in> set ks then Some (f k) else m0 k)"
  by (rule ext) (rule fold_update_keys_apply)

lemma or_zero_Some: "or_zero (Some x) = x"
  by (simp add: or_zero_def)

lemma summary_fold:
  "fold (\<lambda>row m. m(fst row \<mapsto> or_zero (snd row)))
     (map (\<lambda>(k, g). (k, sql_sum (map row_amount g))) (group_by row_type rows)) m0
   = (\<lambda>k. if k \<in> row_type ` set rows then Some (type_total k rows) else m0 k)"
proof -
  have "fold (\<lambda>row m. m(fst row \<mapsto> or_zero (snd row)))
     (map (\<lambda>(k, g). (k, sql_sum (map row_amount g))) (group_by row_type rows)) m0
    = fold (\<lambda>k m. m(k \<mapsto> or_zero (sql_sum (map row_amount (filter (\<lambda>r. row_type r = k) rows)))))
        (remdups (map row_type rows)) m0"
    by (simp add: group_by_def fold_map comp_def)
  also have "\<dots> = (\<lambda>k. if k \<in> row_type ` set rows
      then Some (or_zero (sql_sum (map row_amount (filter (\<lambda>r. row_type r = k) rows))))
      else m0 k)"
    by (simp add: fold_update_keys)
  also have "\<dots> = (\<lambda>k. if k \<in> row_type ` set rows then Some (type_total k rows) else m0 k)"
  proof (rule ext)
    fix k
    show "(if k \<in> row_type ` set rows
      then Some (or_zero (sql_sum (map row_amount (filter (\<lambda>r. row_type r = k) rows))))
      else m0 k) = (if k \<in> row_type ` set rows then Some (type_total k rows) else m0 k)"
    proof (cases "k \<in> row_type ` set rows")
      case True
      then have "filter (\<lambda>r. row_type r = k) rows \<noteq> []"
        by (auto simp: filter_empty_conv)
      then show ?thesis
        by (simp add: sql_sum_def or_zero_Some type_total_def)
    next
      case False
      then show ?thesis by simp
    qed
  qed
  finally show ?thesis .
qed

lemma type_total_none: "k \<notin> row_type ` set rows \<Longrightarrow> type_total k rows = 0"
proof -
  assume "k \<notin> row_type ` set rows"
  then have "filter (\<lambda>r. row_type r = k) rows = []"
    by (auto simp: filter_empty_conv)
  then show ?thesis by (simp add: type_total_def)
qed

lemma label_income_neq_expense: "label_income \<noteq> label_expense"
  by (simp add: label_income_def label_expense_def)

lemma summary_result:
  "fold (\<lambda>row m. m(fst row \<mapsto> or_zero (snd row)))
     (map (\<lambda>(k, g). (k, sql_sum (map row_amount g))) (group_by row_type rows)) zero_totals
   = (\<lambda>k. if k \<in> row_type ` set rows \<or> k = label_income \<or> k = label_expense
           then Some (type_total k rows) else None)"
  unfolding summary_fold
  by (rule ext) (auto simp: zero_totals_def type_total_none)

lemma get_summary_all:
  assumes "type_param type_filter = None"
  shows "get_summary_by_date_range None db start_date end_date type_filter =
    (\<lambda>k. if k \<in> row_type ` set (filter (where_clause start_date end_date type_filter) (records db))
              \<or> k = label_income \<or> k = label_expense
           then Some (type_total k (filter (where_clause start_date end_date type_filter) (records db)))
           else None)"
  using assms
  by (simp add: get_summary_by_date_range_def get_summary_by_date_range_try_def Let_def
        summary_result)

lemma get_summary_specific:
  assumes "type_param type_filter = Some t"
  shows "get_summary_by_date_range None db start_date end_date type_filter =
    [t \<mapsto> type_total t (filter (where_clause start_date end_date type_filter) (records db))]"
proof -
  let ?rows = "filter (where_clause start_date end_date type_filter) (records db)"
  have "(case (if t \<in> row_type ` set ?rows \<or> t = label_income \<or> t = label_expense
           then Some (type_total t ?rows) else None) of None \<Rightarrow> 0 | Some v \<Rightarrow> v)
       = type_total t ?rows"
    by (simp add: type_total_none)
  then show ?thesis
    using assms
    by (simp add: get_summary_by_date_range_def get_summary_by_date_range_try_def Let_def
          summary_result)
qed

lemma type_total_where_clause:
  assumes "type_param tf = Some t" and "type_param tall = None"
  shows "type_total t (filter (where_clause s e tf) rows) =
         type_total t (filter (where_clause s e tall) rows)"
proof -
  have "filter (\<lambda>r. row_type r = t) (filter (where_clause s e tf) rows) =
        filter (\<lambda>r. row_type r = t) (filter (where_clause s e tall) rows)"
    using assms by (auto simp: where_clause_def intro!: filter_cong)
  then show ?thesis by (simp add: type_total_def)
qed

lemma type_param_all: "type_param (Some label_all) = None"
  by (simp add: type_param_def)

lemma rows_ok_types:
  assumes "rows_ok db"
  shows "row_type ` set (filter P (records db)) \<subseteq> {label_income, label_expense}"
  using assms by (auto simp: rows_ok_def row_ok_def list_all_iff RecordType_members_def)

lemma get_summary_all_rows_ok:
  assumes "rows_ok db" and "type_param type_filter = None"
  shows "get_summary_by_date_range None db start_date end_date type_filter =
    [label_income \<mapsto>
       type_total label_income (filter (where_clause start_date end_date type_filter) (records db)),
     label_expense \<mapsto>
       type_total label_expense (filter (where_clause start_date end_date type_filter) (records db))]"
  unfolding get_summary_all [OF assms(2)]
  using rows_ok_types [OF assms(1), of "where_clause start_date end_date type_filter"]
  by (intro ext) auto

text \<open>
  Claim C3. Let the rows be well formed and \<^verbatim>\<open>sqlite3\<close> raise nothing. With a type filter
  \<open>t\<close> (a text that is neither empty nor the label for "all"),
  \<^verbatim>\<open>get_summary_by_date_range\<close> returns a mapping whose only key is \<open>t\<close>; for \<open>t\<close> the label
  of income or of expense, its value is the value under \<open>t\<close> of the same call with the
  filter "all". With the filter "all" the keys are exactly the two labels, and a label
  that no row of the range carries has the value zero.
\<close>

theorem summary_type_filter:
  assumes "rows_ok db" and "t \<noteq> []" and "t \<noteq> label_all"
  shows "dom (get_summary_by_date_range None db start_date end_date (Some t)) = {t} \<and>
    (t \<in> {label_income, label_expense} \<longrightarrow>
       get_summary_by_date_range None db start_date end_date (Some t) t =
       get_summary_by_date_range None db start_date end_date (Some label_all) t) \<and>
    dom (get_summary_by_date_range None db start_date end_date (Some label_all)) =
      {label_income, label_expense} \<and>
    (\<forall>k \<in> {label_income, label_expense}.
       (\<forall>r \<in> set (records db).
          where_clause start_date end_date (Some label_all) r \<longrightarrow> row_type r \<noteq> k) \<longrightarrow>
       get_summary_by_date_range None db start_date end_date (Some label_all) k = Some 0)"
proof -
  have tp: "type_param (Some t) = Some t"
    using assms(2,3) by (simp add: type_param_def)
  note spec = get_summary_specific [OF tp, of db start_date end_date]
  note all = get_summary_all_rows_ok [OF assms(1) type_param_all, of start_date end_date]
  have 1: "dom (get_summary_by_date_range None db start_date end_date (Some t)) = {t}"
    by (simp add: spec)
  have 2: "get_summary_by_date_range None db start_date end_date (Some t) t =
       get_summary_by_date_range None db start_date end_date (Some label_all) t"
    if "t \<in> {label_income, label_expense}"
    using that type_total_where_clause [OF tp type_param_all]
    by (auto simp: spec all)
  have 3: "dom (get_summary_by_date_range None db start_date end_date (Some label_all)) =
      {label_income, label_expense}"
    by (auto simp: all)
  have 4: "get_summary_by_date_range None db start_date end_date (Some label_all) k = Some 0"
    if "k \<in> {label_income, label_expense}"
      and "\<forall>r \<in> set (records db).
          where_clause start_date end_date (Some label_all) r \<longrightarrow> row_type r \<noteq> k"
    for k
  proof -
    from that(2) have "k \<notin> row_type `
        set (filter (where_clause start_date end_date (Some label_all)) (records db))"
      by auto
    then have "type_total k
        (filter (where_clause start_date end_date (Some label_all)) (records db)) = 0"
      by (rule type_total_none)
    with that(1) show ?thesis
      by (auto simp: all)
  qed
  from 1 2 3 4 show ?thesis by blast
qed

theorem summary_type_filter_witness:
  "rows_ok example_db \<and> label_expense \<noteq> [] \<and> label_expense \<noteq> label_all \<and>
   dom (get_summary_by_date_range None example_db example_date example_date
          (Some label_expense)) = {label_expense} \<and>
   get_summary_by_date_range None example_db example_date example_date
     (Some label_expense) label_expense =
   get_summary_by_date_range None example_db example_date example_date
     (Some label_all) label_expense \<and>
   dom (get_summary_by_date_range None example_db example_date example_date
          (Some label_all)) = {label_income, label_expense} \<and>
   get_summary_by_date_range None example_db example_date example_date
     (Some label_all) label_income = Some 0"
proof -
  have ne: "label_expense \<noteq> []" "label_expense \<noteq> label_all"
    by (simp_all add: label_expense_def label_all_def)
  have none: "\<forall>r \<in> set (records example_db).
      where_clause example_date example_date (Some label_all) r \<longrightarrow> row_type r \<noteq> label_income"
    using label_income_neq_expense by (simp add: example_db_records)
  show ?thesis
    using summary_type_filter [OF example_db_rows_ok ne, of example_date example_date]
      example_db_rows_ok ne none
    by blast
qed

subsection \<open>The summary by type against the returned records\<close>

lemma foldl_plus_sum_list: "foldl (+) a xs = a + sum_list (xs :: 'a::monoid_add list)"
  by (induction xs arbitrary: a) (simp_all add: add.assoc)

lemma foldl_plus_mset:
  fixes xs ys :: "'a::comm_monoid_add list"
  assumes "mset xs = mset ys"
  shows "foldl (+) 0 xs = foldl (+) 0 ys"
proof -
  have "sum_list xs = sum_list ys"
    using assms by (metis sum_mset_sum_list)
  then show ?thesis by (simp add: foldl_plus_sum_list)
qed

lemma decoded_type_amounts:
  assumes "list_all (\<lambda>jr. row_ok (fst jr)) js"
  shows "map amount (filter (\<lambda>r. record_type r = T) (map (\<lambda>jr. projr (row_to_record now jr)) js))
    = map (\<lambda>jr. row_amount (fst jr)) (filter (\<lambda>jr. row_type (fst jr) = RecordType_value T) js)"
  using assms
proof (induction js)
  case Nil
  show ?case by simp
next
  case (Cons jr js)
  then have ok: "row_ok (fst jr)" by simp
  have "record_type (projr (row_to_record now jr)) = T \<longleftrightarrow>
        row_type (fst jr) = RecordType_value T"
    using row_to_record_fields(3) [OF ok, of now] RecordType_value_inj by metis
  with Cons row_to_record_fields(2) [OF ok, of now] show ?case by simp
qed

lemma decoded_amounts_mset:
  assumes "list_all row_ok rows"
  shows "mset (map amount (filter (\<lambda>r. record_type r = T)
           (map (\<lambda>jr. projr (row_to_record now jr))
              (order_by_desc (\<lambda>jr. row_record_date (fst jr)) (left_join cats rows)))))
         = mset (map row_amount (filter (\<lambda>r. row_type r = RecordType_value T) rows))"
proof -
  let ?js = "order_by_desc (\<lambda>jr. row_record_date (fst jr)) (left_join cats rows)"
  have ok: "list_all (\<lambda>jr. row_ok (fst jr)) ?js"
    using assms by (simp add: list_all_order_by_desc left_join_rows_ok)
  have "mset (map (\<lambda>jr. row_amount (fst jr))
           (filter (\<lambda>jr. row_type (fst jr) = RecordType_value T) ?js))
      = mset (map (\<lambda>jr. row_amount (fst jr))
           (filter (\<lambda>jr. row_type (fst jr) = RecordType_value T) (left_join cats rows)))"
    by (simp add: mset_order_by_desc)
  also have "map (\<lambda>jr. row_amount (fst jr))
           (filter (\<lambda>jr. row_type (fst jr) = RecordType_value T) (left_join cats rows))
      = map row_amount (filter (\<lambda>r. row_type r = RecordType_value T) rows)"
    by (induction rows) (simp_all add: left_join_def)
  finally show ?thesis
    unfolding decoded_type_amounts [OF ok] .
qed

lemma or_zero_sql_sum: "or_zero (sql_sum xs) = foldl (+) 0 xs"
  by (simp add: sql_sum_def or_zero_def)

text \<open>
  Claim C2, as stated for every database state, fails on a file with a row whose payment
  label is not a label of \<^verbatim>\<open>PaymentMethod\<close>: the summary counts the amount of the row, and
  \<^verbatim>\<open>get_records_by_date_range\<close> returns no record at all, since the decoding of that row
  raises and the handler returns the empty list.
\<close>

theorem summary_and_rows_counterexample:
  "get_summary_by_date_range None bad_label_db example_date example_date (Some label_all)
     label_income = Some 500 \<and>
   get_records_by_date_range example_now None bad_label_db example_date example_date
     (Some label_all) = [] \<and>
   row_level_summary
     (get_records_by_date_range example_now None bad_label_db example_date example_date
        (Some label_all)) label_income = Some 0 \<and>
   get_summary_by_date_range None bad_label_db example_date example_date (Some label_all)
     \<noteq> row_level_summary
         (get_records_by_date_range example_now None bad_label_db example_date example_date
            (Some label_all))"
proof -
  have wc: "where_clause example_date example_date (Some label_all) r"
    if "row_record_date r = isoformat example_date" for r :: "int record_row"
    using that by (simp add: where_clause_def type_param_all)
  have s: "get_summary_by_date_range None bad_label_db example_date example_date
      (Some label_all) label_income = Some 500"
    unfolding get_summary_all [OF type_param_all]
    by (simp add: bad_label_db_def wc type_total_def)
  have "PaymentMethod_call ''PayPal'' = Inl ValueError"
    by (simp add: PaymentMethod_call_def enum_call_def PaymentMethod_members_def)
  then have r: "get_records_by_date_range example_now None bad_label_db example_date
      example_date (Some label_all) = []"
    by (simp add: get_records_by_date_range_def get_records_by_date_range_try_def
          bad_label_db_def left_join_def wc order_by_desc_def row_to_record_def Let_def
          RecordType_call_value [of INCOME, simplified])
  have z: "row_level_summary ([] :: int Record list) label_income = Some 0"
    using label_income_neq_expense by (simp add: row_level_summary_def)
  from s r z show ?thesis by auto
qed

text \<open>
  Claim C2, amended. Let the rows be well formed, as in every state of the store, and let
  \<^verbatim>\<open>sqlite3\<close> raise nothing. For every date range, \<^verbatim>\<open>get_summary_by_date_range\<close> with the
  filter "all" has the two labels as its keys, each with the \<^verbatim>\<open>SUM\<close> of the amounts of
  the rows of the range of that type, or zero; and for each type these amounts are, as a
  multiset, the amounts of the records of that type that \<^verbatim>\<open>get_records_by_date_range\<close>
  returns for the same range and filter (in the order of the dates). So the summary is
  the mapping of the sums by type over the returned records whenever \<^verbatim>\<open>SUM\<close> of a list
  of amounts is the left-to-right sum of every reordering of the list. That holds for
  exact amounts; it does not hold for the rounded addition of floating-point numbers, for
  which no equality is stated.
\<close>

theorem summary_agrees_with_rows:
  fixes db :: "'a::{zero,plus} database"
  assumes "rows_ok db"
  shows
   "get_summary_by_date_range None db start_date end_date (Some label_all) =
      [label_income \<mapsto>
         or_zero (sql_sum (map row_amount (filter (\<lambda>r. row_type r = label_income)
           (filter (where_clause start_date end_date (Some label_all)) (records db))))),
       label_expense \<mapsto>
         or_zero (sql_sum (map row_amount (filter (\<lambda>r. row_type r = label_expense)
           (filter (where_clause start_date end_date (Some label_all)) (records db)))))] \<and>
    mset (map amount (filter (\<lambda>r. record_type r = T)
       (get_records_by_date_range now None db start_date end_date (Some label_all)))) =
    mset (map row_amount (filter (\<lambda>r. row_type r = RecordType_value T)
       (filter (where_clause start_date end_date (Some label_all)) (records db)))) \<and>
    ((\<forall>xs ys :: 'a list. mset xs = mset ys \<longrightarrow> or_zero (sql_sum xs) = foldl (+) 0 ys) \<longrightarrow>
       get_summary_by_date_range None db start_date end_date (Some label_all) =
       row_level_summary
         (get_records_by_date_range now None db start_date end_date (Some label_all)))"
proof -
  let ?rows = "filter (where_clause start_date end_date (Some label_all)) (records db)"
  let ?recs = "get_records_by_date_range now None db start_date end_date (Some label_all)"
  have ok: "list_all row_ok ?rows"
    using assms by (simp add: rows_ok_def list_all_iff)
  have sum: "get_summary_by_date_range None db start_date end_date (Some label_all) =
      [label_income \<mapsto>
         or_zero (sql_sum (map row_amount (filter (\<lambda>r. row_type r = label_income) ?rows))),
       label_expense \<mapsto>
         or_zero (sql_sum (map row_amount (filter (\<lambda>r. row_type r = label_expense) ?rows)))]"
    by (simp only: get_summary_all_rows_ok [OF assms type_param_all] type_total_def
          or_zero_sql_sum)
  have ms: "mset (map amount (filter (\<lambda>r. record_type r = T') ?recs)) =
      mset (map row_amount (filter (\<lambda>r. row_type r = RecordType_value T') ?rows))" for T'
    unfolding get_records_by_date_range_rows_ok [OF assms]
    by (rule decoded_amounts_mset [OF ok])
  have eq: "get_summary_by_date_range None db start_date end_date (Some label_all) =
       row_level_summary ?recs"
    if h: "\<forall>xs ys :: 'a list. mset xs = mset ys \<longrightarrow> or_zero (sql_sum xs) = foldl (+) 0 ys"
  proof -
    have "or_zero (sql_sum
            (map row_amount (filter (\<lambda>r. row_type r = RecordType_value T') ?rows))) =
        foldl (+) 0 (map amount (filter (\<lambda>r. record_type r = T') ?recs))"
      for T'
      using h ms [of T'] by metis
    from this [of INCOME] this [of EXPENSE] show ?thesis
      by (simp only: sum row_level_summary_def RecordType_value.simps)
  qed
  from sum ms [of T] eq show ?thesis by blast
qed

theorem summary_agrees_with_rows_witness:
  "rows_ok example_db \<and>
   get_summary_by_date_range None example_db example_date example_date (Some label_all) =
     row_level_summary
       (get_records_by_date_range example_now None example_db example_date example_date
          (Some label_all)) \<and>
   get_summary_by_date_range None example_db example_date example_date (Some label_all) =
     [label_income \<mapsto> 0, label_expense \<mapsto> 7800]"
proof -
  have h: "\<forall>xs ys :: int list. mset xs = mset ys \<longrightarrow> or_zero (sql_sum xs) = foldl (+) 0 ys"
    using foldl_plus_mset by (auto simp: or_zero_sql_sum)
  have v: "get_summary_by_date_range None example_db example_date example_date
      (Some label_all) = [label_income \<mapsto> 0, label_expense \<mapsto> 7800]"
    unfolding get_summary_all_rows_ok [OF example_db_rows_ok type_param_all]
    using label_income_neq_expense
    by (simp add: example_db_records where_clause_def type_param_all type_total_def)
  show ?thesis
    using summary_agrees_with_rows [OF example_db_rows_ok, of example_date example_date
        INCOME example_now] h v example_db_rows_ok
    by blast
qed

subsection \<open>Initialisation is idempotent\<close>

lemma fold_insert_or_ignore_apply:
  "fold insert_or_ignore kvs m x = (case m x of Some c \<Rightarrow> Some c | None \<Rightarrow> map_of kvs x)"
proof (induction kvs arbitrary: m)
  case Nil
  show ?case by (simp split: option.splits)
next
  case (Cons kv kvs)
  have "fold insert_or_ignore (kv # kvs) m x =
      fold insert_or_ignore kvs (insert_or_ignore kv m) x"
    by simp
  also have "\<dots> = (case insert_or_ignore kv m x of
      Some c \<Rightarrow> Some c | None \<Rightarrow> map_of kvs x)"
    by (rule Cons.IH)
  also have "\<dots> = (case m x of Some c \<Rightarrow> Some c | None \<Rightarrow> map_of (kv # kvs) x)"
    by (cases kv) (simp add: insert_or_ignore_def split: option.splits)
  finally show ?case .
qed

lemma insert_default_data_eq: "insert_default_data cats = map_of default_categories ++ cats"
  by (rule ext)
     (simp add: insert_default_data_def fold_insert_or_ignore_apply map_add_def
        split: option.splits)

lemma insert_default_data_idem:
  "insert_default_data (insert_default_data cats) = insert_default_data cats"
  by (rule ext) (simp add: insert_default_data_eq map_add_def split: option.splits)

lemma insert_default_data_keeps:
  "cats k = Some c \<Longrightarrow> insert_default_data cats k = Some c"
  by (simp add: insert_default_data_eq map_add_def)

lemma dom_default_categories: "dom (map_of default_categories) = {1, 2, 3, 4, 5, 6, 7, 8, 9, 10}"
  by (simp add: dom_map_of_conv_image_fst default_categories_def)

text \<open>
  Claim C5. A second run of \<^verbatim>\<open>_init_database\<close>, whether it succeeds or \<^verbatim>\<open>sqlite3\<close> raises,
  leaves the state of the first run as it is, in both tables. In general a run changes no
  row of \<^verbatim>\<open>records\<close> nor its counter, and leaves under every category id that is present
  the row it had. The categories of a new file after one run are the ten seeded rows,
  under the ids 1 to 10.
\<close>

theorem init_database_idempotent:
  "init_database fault' (init_database None db) = init_database None db \<and>
   records (init_database fault db) = records db \<and>
   records_seq (init_database fault db) = records_seq db \<and>
   (categories db k = Some c \<longrightarrow> categories (init_database fault db) k = Some c) \<and>
   categories (init_database None (empty_database :: 'a database)) = map_of default_categories \<and>
   dom (categories (init_database None (empty_database :: 'a database))) =
     {1, 2, 3, 4, 5, 6, 7, 8, 9, 10}"
proof (intro conjI impI)
  show "init_database fault' (init_database None db) = init_database None db"
    by (cases fault')
       (simp_all add: init_database_def init_database_try_def insert_default_data_idem)
  show "records (init_database fault db) = records db"
    by (cases fault) (simp_all add: init_database_def init_database_try_def)
  show "records_seq (init_database fault db) = records_seq db"
    by (cases fault) (simp_all add: init_database_def init_database_try_def)
  show "categories (init_database fault db) k = Some c" if "categories db k = Some c"
    using that by (cases fault)
      (simp_all add: init_database_def init_database_try_def insert_default_data_keeps)
  show eq: "categories (init_database None (empty_database :: 'a database)) =
      map_of default_categories"
    by (simp add: init_database_def init_database_try_def insert_default_data_eq
          empty_database_def)
  show "dom (categories (init_database None (empty_database :: 'a database))) =
     {1, 2, 3, 4, 5, 6, 7, 8, 9, 10}"
    by (simp only: eq dom_default_categories)
qed

theorem init_database_idempotent_witness:
  "categories (example_db\<lparr>categories := [3 \<mapsto> \<lparr>cat_name = ''Travel'', cat_icon = ''*'',
       cat_color = ''#000000''\<rparr>]\<rparr>) 3
     = Some \<lparr>cat_name = ''Travel'', cat_icon = ''*'', cat_color = ''#000000''\<rparr> \<and>
   categories (init_database None
      (example_db\<lparr>categories := [3 \<mapsto> \<lparr>cat_name = ''Travel'', cat_icon = ''*'',
          cat_color = ''#000000''\<rparr>]\<rparr>)) 3
     = Some \<lparr>cat_name = ''Travel'', cat_icon = ''*'', cat_color = ''#000000''\<rparr> \<and>
   init_database None (init_database None example_db) = init_database None example_db \<and>
   records (init_database None example_db) = records example_db"
proof -
  let ?c = "\<lparr>cat_name = ''Travel'', cat_icon = ''*'', cat_color = ''#000000''\<rparr>"
  let ?db = "example_db\<lparr>categories := [3 \<mapsto> ?c]\<rparr>"
  have pre: "categories ?db 3 = Some ?c" by simp
  have kept: "categories (init_database None ?db) 3 = Some ?c"
    using init_database_idempotent [of None ?db None 3 ?c] pre by blast
  have idem: "init_database None (init_database None example_db) = init_database None example_db"
    "records (init_database None example_db) = records example_db"
    using init_database_idempotent [of None example_db None 3 ?c] by blast+
  show ?thesis
    using pre kept idem by blast
qed

subsection \<open>Failures inside the store\<close>

lemma try_fault:
  "add_record_try (Some e) db record = Inl e"
  "get_all_records_try now (Some e) db limit = Inl e"
  "get_records_by_date_range_try now (Some e) db start_date end_date type_filter = Inl e"
  "get_summary_by_date_range_try (Some e) db' start_date end_date type_filter = Inl e"
  "get_category_summary_try (Some e) db' start_date end_date type_filter = Inl e"
  "get_monthly_summary_try sql_strftime now (Some e) db' = Inl e"
  by (simp_all add: add_record_try_def get_all_records_try_def get_records_by_date_range_try_def
        get_summary_by_date_range_try_def get_category_summary_try_def
        get_monthly_summary_try_def)

lemma summary_try_fails_iff:
  "get_summary_by_date_range_try fault db start_date end_date type_filter = Inl e
     \<longleftrightarrow> fault = Some e"
  by (cases fault) (simp_all add: get_summary_by_date_range_try_def Let_def)

lemma bad_label_try:
  "get_all_records_try example_now None bad_label_db None = Inl ValueError"
proof -
  have "PaymentMethod_call ''PayPal'' = Inl ValueError"
    by (simp add: PaymentMethod_call_def enum_call_def PaymentMethod_members_def)
  then show ?thesis
    by (simp add: get_all_records_try_def bad_label_db_def left_join_def order_by_desc_def
          row_to_record_def Let_def RecordType_call_value [of INCOME, simplified])
qed

lemma outcome_value:
  fixes db :: "'a::{zero,plus} database"
  shows "add_record_outcome None fault db record = Inr (add_record fault db record)"
    and "get_all_records_outcome None now fault db limit = Inr (get_all_records now fault db limit)"
    and "get_records_by_date_range_outcome None now fault db start_date end_date type_filter =
          Inr (get_records_by_date_range now fault db start_date end_date type_filter)"
    and "get_summary_by_date_range_outcome None fault db start_date end_date type_filter =
          Inr (get_summary_by_date_range fault db start_date end_date type_filter)"
    and "get_monthly_summary_outcome None sql_strftime now fault db =
          Inr (get_monthly_summary sql_strftime now fault db)"
    and "get_category_summary_outcome None fault db start_date end_date type_filter =
          Inr (get_category_summary fault db start_date end_date type_filter)"
  by (simp_all add: add_record_outcome_def add_record_def get_all_records_outcome_def
        get_all_records_def get_records_by_date_range_outcome_def get_records_by_date_range_def
        get_summary_by_date_range_outcome_def get_summary_by_date_range_def
        get_monthly_summary_outcome_def get_monthly_summary_def
        get_category_summary_outcome_def get_category_summary_def except_handler_def
        split: sum.splits)

lemma outcome_print_fails:
  fixes db :: "'a::{zero,plus} database"
  shows "add_record_outcome (Some pe) (Some e) db record = Inl pe"
    and "get_all_records_outcome (Some pe) now (Some e) db limit = Inl pe"
    and "get_records_by_date_range_outcome (Some pe) now (Some e) db start_date end_date
          type_filter = Inl pe"
    and "get_summary_by_date_range_outcome (Some pe) (Some e) db start_date end_date
          type_filter = Inl pe"
    and "get_monthly_summary_outcome (Some pe) sql_strftime now (Some e) db = Inl pe"
    and "get_category_summary_outcome (Some pe) (Some e) db start_date end_date type_filter
          = Inl pe"
  by (simp_all add: add_record_outcome_def get_all_records_outcome_def
        get_records_by_date_range_outcome_def get_summary_by_date_range_outcome_def
        get_monthly_summary_outcome_def get_category_summary_outcome_def except_handler_def
        try_fault)

lemma row_to_record_bad_label:
  assumes "row_type (fst jr) \<notin> {label_income, label_expense} \<or>
           row_payment_method (fst jr) \<notin> range PaymentMethod_value"
  shows "row_to_record now jr = Inl ValueError"
proof (cases "row_type (fst jr) \<in> {label_income, label_expense}")
  case False
  then have "RecordType_call (row_type (fst jr)) = Inl ValueError"
    by (intro RecordType_call_outside) (simp only: RecordType_labels, simp)
  then show ?thesis by (simp add: row_to_record_def Let_def)
next
  case True
  then obtain t where t: "row_type (fst jr) = RecordType_value t"
    using RecordType_labels by (metis rangeE)
  from True assms have "PaymentMethod_call (row_payment_method (fst jr)) = Inl ValueError"
    by (intro PaymentMethod_call_outside) simp
  then show ?thesis
    by (simp add: row_to_record_def Let_def t RecordType_call_value)
qed

lemma rows_to_records_fails:
  assumes "jr \<in> set rows" and "row_to_record now jr = Inl ValueError"
  shows "\<exists>e. rows_to_records now rows = Inl e"
  using assms by (induction rows) (auto split: sum.splits)

lemma get_all_records_bad_label:
  assumes "r \<in> set (records db)"
    and "row_type r \<notin> {label_income, label_expense} \<or>
         row_payment_method r \<notin> range PaymentMethod_value"
  shows "\<exists>e. get_all_records_try now None db None = Inl e"
proof -
  let ?jr = "(r, categories db (row_category_id r))"
  let ?rows = "order_by_desc (\<lambda>jr. row_record_date (fst jr))
                 (left_join (categories db) (records db))"
  have "?jr \<in> set ?rows"
    using assms(1) by (simp add: set_order_by_desc left_join_def)
  moreover have "row_to_record now ?jr = Inl ValueError"
    using assms(2) by (intro row_to_record_bad_label) simp
  ultimately have "\<exists>e. rows_to_records now ?rows = Inl e"
    by (rule rows_to_records_fails)
  then show ?thesis
    by (simp add: get_all_records_try_def Let_def)
qed

lemma category_summary_no_rows:
  fixes db :: "'a::{zero,plus} database"
  assumes "\<forall>r \<in> set (records db). \<not> where_clause start_date end_date type_filter r"
  shows "get_category_summary None db start_date end_date type_filter = Map.empty"
proof -
  have "filter (where_clause start_date end_date type_filter) (records db) = []"
    using assms by (simp add: filter_empty_conv)
  then have "filter (\<lambda>jr. where_clause start_date end_date type_filter (fst jr))
      (left_join (categories db) (records db)) = []"
    by (simp only: filter_left_join) (simp add: left_join_def)
  then show ?thesis
    by (simp add: get_category_summary_def get_category_summary_try_def Let_def group_by_def)
qed

lemma type_param_income: "type_param (Some label_income) = Some label_income"
  by (simp add: type_param_def label_income_def label_all_def)

lemma example_db_no_income:
  "\<forall>r \<in> set (records example_db).
     \<not> where_clause example_date example_date (Some label_income) r"
  using label_income_neq_expense
  by (simp add: example_db_records where_clause_def type_param_income)

lemma outcome_on_success:
  fixes db :: "'a::{zero,plus} database"
  shows "add_record_outcome print_fault None db record = Inr (add_record None db record)"
    and "get_summary_by_date_range_outcome print_fault None db start_date end_date
           type_filter = Inr (get_summary_by_date_range None db start_date end_date type_filter)"
    and "get_category_summary_outcome print_fault None db start_date end_date type_filter
           = Inr (get_category_summary None db start_date end_date type_filter)"
    and "get_monthly_summary_outcome print_fault sql_strftime now None db
           = Inr (get_monthly_summary sql_strftime now None db)"
    and "get_all_records_try now None db limit = Inr recs \<Longrightarrow>
         get_all_records_outcome print_fault now None db limit
           = Inr (get_all_records now None db limit)"
    and "get_records_by_date_range_try now None db start_date end_date type_filter = Inr recs
         \<Longrightarrow> get_records_by_date_range_outcome print_fault now None db start_date end_date
               type_filter
             = Inr (get_records_by_date_range now None db start_date end_date type_filter)"
  by (simp_all add: add_record_outcome_def add_record_def add_record_try_def
        get_summary_by_date_range_outcome_def get_summary_by_date_range_def
        get_summary_by_date_range_try_def get_category_summary_outcome_def
        get_category_summary_def get_category_summary_try_def
        get_monthly_summary_outcome_def get_monthly_summary_def get_monthly_summary_try_def
        get_all_records_outcome_def get_all_records_def
        get_records_by_date_range_outcome_def get_records_by_date_range_def Let_def)

text \<open>
  Claim C7, as stated, fails in two ways. When \<^verbatim>\<open>sqlite3\<close> raises,
  \<^verbatim>\<open>get_category_summary\<close> returns the empty mapping, with no entry at all, where
  \<^verbatim>\<open>get_summary_by_date_range\<close> returns the mapping of the two labels to zero. And when the
  \<^verbatim>\<open>print\<close> of a handler raises because the standard output cannot encode the message,
  that exception leaves the method: here \<^verbatim>\<open>add_record\<close> raises \<^verbatim>\<open>UnicodeEncodeError\<close>.
\<close>

theorem store_operations_failure_counterexample:
  "get_category_summary_outcome None (Some DatabaseError) example_db example_date example_date
     None = Inr Map.empty \<and>
   get_summary_by_date_range_outcome None (Some DatabaseError) example_db example_date
     example_date None = Inr [label_income \<mapsto> 0, label_expense \<mapsto> 0] \<and>
   add_record_outcome (Some UnicodeEncodeError) (Some DatabaseError) example_db example_record
     = Inl UnicodeEncodeError"
  by (simp add: outcome_print_fails outcome_value get_category_summary_def
        get_summary_by_date_range_def try_fault zero_totals_def)

text \<open>
  Claim C7, amended. On a standard output that accepts the messages of the handlers
  (\<^verbatim>\<open>print\<close> raises nothing), no operation of the store lets an exception leave: for every
  input and every failure of \<^verbatim>\<open>sqlite3\<close> each call returns a value, and
  \<^verbatim>\<open>_init_database\<close> returns. Whenever the body of its \<^verbatim>\<open>try\<close> fails, \<^verbatim>\<open>add_record\<close> returns
  \<^verbatim>\<open>False\<close> and leaves the database as it was, \<^verbatim>\<open>get_all_records\<close> and
  \<^verbatim>\<open>get_records_by_date_range\<close> return the empty list, \<^verbatim>\<open>get_summary_by_date_range\<close> and
  \<^verbatim>\<open>get_monthly_summary\<close> return the mapping of the two labels to zero, and
  \<^verbatim>\<open>get_category_summary\<close> returns the empty mapping. Every exception of \<^verbatim>\<open>sqlite3\<close> is
  such a failure of every body, and so is, for \<^verbatim>\<open>get_all_records()\<close>, a stored row with a
  type or payment label outside the enumerations.
\<close>

theorem store_operations_catch_failures:
  fixes db :: "'a::{zero,plus} database"
  shows
  "(\<exists>ok db'. add_record_outcome None fault db record = Inr (ok, db')) \<and>
   (\<exists>recs. get_all_records_outcome None now fault db limit = Inr recs) \<and>
   (\<exists>recs. get_records_by_date_range_outcome None now fault db start_date end_date
              type_filter = Inr recs) \<and>
   (\<exists>result. get_summary_by_date_range_outcome None fault db start_date end_date
              type_filter = Inr result) \<and>
   (\<exists>result. get_monthly_summary_outcome None sql_strftime now fault db = Inr result) \<and>
   (\<exists>result. get_category_summary_outcome None fault db start_date end_date
              type_filter = Inr result) \<and>
   fst (init_database_outcome None fault db) = None \<and>
   (add_record_try fault db record = Inl e \<longrightarrow>
      add_record_outcome None fault db record = Inr (False, db)) \<and>
   (get_all_records_try now fault db limit = Inl e \<longrightarrow>
      get_all_records_outcome None now fault db limit = Inr []) \<and>
   (get_records_by_date_range_try now fault db start_date end_date type_filter = Inl e \<longrightarrow>
      get_records_by_date_range_outcome None now fault db start_date end_date type_filter
        = Inr []) \<and>
   (get_summary_by_date_range_try fault db start_date end_date type_filter = Inl e \<longrightarrow>
      get_summary_by_date_range_outcome None fault db start_date end_date type_filter =
        Inr [label_income \<mapsto> 0, label_expense \<mapsto> 0]) \<and>
   (get_monthly_summary_try sql_strftime now fault db = Inl e \<longrightarrow>
      get_monthly_summary_outcome None sql_strftime now fault db =
        Inr [label_income \<mapsto> 0, label_expense \<mapsto> 0]) \<and>
   (get_category_summary_try fault db start_date end_date type_filter = Inl e \<longrightarrow>
      get_category_summary_outcome None fault db start_date end_date type_filter =
        Inr Map.empty) \<and>
   (fault = Some e \<longrightarrow>
      add_record_try fault db record = Inl e \<and>
      get_all_records_try now fault db limit = Inl e \<and>
      get_records_by_date_range_try now fault db start_date end_date type_filter = Inl e \<and>
      get_summary_by_date_range_try fault db start_date end_date type_filter = Inl e \<and>
      get_monthly_summary_try sql_strftime now fault db = Inl e \<and>
      get_category_summary_try fault db start_date end_date type_filter = Inl e) \<and>
   ((\<exists>r \<in> set (records db).
       row_type r \<notin> {label_income, label_expense} \<or>
       row_payment_method r \<notin> range PaymentMethod_value) \<longrightarrow>
      get_all_records_outcome None now None db None = Inr [])"
proof -
  have bad: "get_all_records_outcome None now None db None = Inr []"
    if "\<exists>r \<in> set (records db).
       row_type r \<notin> {label_income, label_expense} \<or>
       row_payment_method r \<notin> range PaymentMethod_value"
  proof -
    from that get_all_records_bad_label [of _ db now]
    obtain e' where "get_all_records_try now None db None = Inl e'" by blast
    then show ?thesis
      by (simp add: get_all_records_outcome_def except_handler_def)
  qed
  have init: "fst (init_database_outcome None fault db) = None"
    by (simp add: init_database_outcome_def except_handler_def split: sum.splits)
  show ?thesis
    using bad init
    by (simp add: outcome_value add_record_def get_all_records_def
          get_records_by_date_range_def get_summary_by_date_range_def
          get_monthly_summary_def get_category_summary_def try_fault zero_totals_def)
qed

theorem store_operations_catch_failures_witness:
  "add_record_try (Some DatabaseError) example_db example_record = Inl DatabaseError \<and>
   add_record_outcome None (Some DatabaseError) example_db example_record
     = Inr (False, example_db) \<and>
   get_summary_by_date_range_outcome None (Some DatabaseError) example_db example_date
     example_date (Some label_income) = Inr [label_income \<mapsto> 0, label_expense \<mapsto> 0] \<and>
   get_category_summary_outcome None (Some DatabaseError) example_db example_date
     example_date (Some label_income) = Inr Map.empty \<and>
   (\<exists>r \<in> set (records bad_label_db).
       row_type r \<notin> {label_income, label_expense} \<or>
       row_payment_method r \<notin> range PaymentMethod_value) \<and>
   get_all_records_outcome None example_now None bad_label_db None = Inr []"
proof -
  have paypal: "''PayPal'' \<notin> range PaymentMethod_value"
    by (simp only: PaymentMethod_labels) simp
  have bad: "\<exists>r \<in> set (records bad_label_db).
       row_type r \<notin> {label_income, label_expense} \<or>
       row_payment_method r \<notin> range PaymentMethod_value"
    using paypal by (simp add: bad_label_db_def)
  have f: "Some DatabaseError = Some DatabaseError" by simp
  show ?thesis
    using store_operations_catch_failures [of "Some DatabaseError" example_db example_record
        example_now None example_date example_date "Some label_income" "\<lambda>s. None"
        DatabaseError]
      store_operations_catch_failures [of None bad_label_db example_record
        example_now None example_date example_date None "\<lambda>s. None" ValueError]
      bad f
    by blast
qed

text \<open>
  Claim C10, as stated, fails in two ways. For \<^verbatim>\<open>get_category_summary\<close> the result of a
  failure cannot be told from a result of success under a type filter: on a range with no
  row of the type both are the empty mapping. And when the \<^verbatim>\<open>print\<close> of the handler
  raises, \<^verbatim>\<open>get_summary_by_date_range\<close> returns no mapping: the exception leaves it.
\<close>

theorem summary_error_results_counterexample:
  "type_param (Some label_income) = Some label_income \<and>
   get_category_summary_outcome None None example_db example_date example_date
     (Some label_income) =
   get_category_summary_outcome None (Some DatabaseError) example_db example_date example_date
     (Some label_income) \<and>
   get_summary_by_date_range_outcome (Some UnicodeEncodeError) (Some DatabaseError) example_db
     example_date example_date (Some label_income) = Inl UnicodeEncodeError"
proof -
  have "get_category_summary (Some DatabaseError) example_db example_date example_date
      (Some label_income) = Map.empty"
    by (simp add: get_category_summary_def try_fault)
  then show ?thesis
    by (simp add: outcome_print_fails outcome_value type_param_income
          category_summary_no_rows [OF example_db_no_income])
qed

text \<open>
  Claim C10, amended. On a standard output that accepts the messages of the handlers,
  whenever the body of its \<^verbatim>\<open>try\<close> fails \<^verbatim>\<open>get_summary_by_date_range\<close> returns the mapping of
  both labels to zero whatever the type filter, \<^verbatim>\<open>get_category_summary\<close> returns the empty
  mapping and \<^verbatim>\<open>get_monthly_summary\<close> the mapping of both labels to zero. For
  \<^verbatim>\<open>get_summary_by_date_range\<close> under a type filter \<open>t\<close>, the result of a failure has the
  two labels as keys and the result of a success has the single key \<open>t\<close>, so the two are
  never equal. For \<^verbatim>\<open>get_category_summary\<close> there is no such difference: on a range in
  which the filter selects no row, the result of a success is the empty mapping of a
  failure.
\<close>

theorem summary_error_results:
  fixes db db' :: "'a::{zero,plus} database"
  shows
  "(get_summary_by_date_range_try fault db start_date end_date type_filter = Inl e \<longrightarrow>
      get_summary_by_date_range_outcome None fault db start_date end_date type_filter =
        Inr [label_income \<mapsto> 0, label_expense \<mapsto> 0]) \<and>
   (get_category_summary_try fault db start_date end_date type_filter = Inl e \<longrightarrow>
      get_category_summary_outcome None fault db start_date end_date type_filter
        = Inr Map.empty) \<and>
   (get_monthly_summary_try sql_strftime now fault db = Inl e \<longrightarrow>
      get_monthly_summary_outcome None sql_strftime now fault db =
        Inr [label_income \<mapsto> 0, label_expense \<mapsto> 0]) \<and>
   (type_param type_filter = Some t \<longrightarrow>
      (\<exists>m. get_summary_by_date_range_outcome None (Some e) db start_date end_date type_filter
             = Inr m \<and> dom m = {label_income, label_expense}) \<and>
      (\<exists>m. get_summary_by_date_range_outcome print_fault None db' start_date' end_date'
             type_filter = Inr m \<and> dom m = {t}) \<and>
      get_summary_by_date_range_outcome print_fault None db' start_date' end_date' type_filter
        \<noteq> get_summary_by_date_range_outcome None (Some e) db start_date end_date
            type_filter) \<and>
   ((\<forall>r \<in> set (records db').
        \<not> where_clause start_date' end_date' type_filter r) \<longrightarrow>
      get_category_summary_outcome print_fault None db' start_date' end_date' type_filter
        = get_category_summary_outcome None (Some e) db start_date end_date type_filter)"
proof (intro conjI impI)
  show "get_summary_by_date_range_outcome None fault db start_date end_date type_filter =
        Inr [label_income \<mapsto> 0, label_expense \<mapsto> 0]"
    if "get_summary_by_date_range_try fault db start_date end_date type_filter = Inl e"
    using that
    by (simp add: get_summary_by_date_range_outcome_def except_handler_def zero_totals_def)
  show "get_category_summary_outcome None fault db start_date end_date type_filter
        = Inr Map.empty"
    if "get_category_summary_try fault db start_date end_date type_filter = Inl e"
    using that by (simp add: get_category_summary_outcome_def except_handler_def)
  show "get_monthly_summary_outcome None sql_strftime now fault db =
        Inr [label_income \<mapsto> 0, label_expense \<mapsto> 0]"
    if "get_monthly_summary_try sql_strftime now fault db = Inl e"
    using that
    by (simp add: get_monthly_summary_outcome_def except_handler_def zero_totals_def)
next
  assume tp: "type_param type_filter = Some t"
  have err: "get_summary_by_date_range_outcome None (Some e) db start_date end_date type_filter
      = Inr [label_income \<mapsto> 0, label_expense \<mapsto> 0]"
    by (simp add: outcome_value get_summary_by_date_range_def try_fault zero_totals_def)
  have ok: "get_summary_by_date_range_outcome print_fault None db' start_date' end_date'
      type_filter = Inr (get_summary_by_date_range None db' start_date' end_date' type_filter)"
    by (simp add: get_summary_by_date_range_outcome_def get_summary_by_date_range_def
          get_summary_by_date_range_try_def Let_def)
  have dom_ok: "dom (get_summary_by_date_range None db' start_date' end_date' type_filter) = {t}"
    by (simp add: get_summary_specific [OF tp])
  have dom_err: "dom [label_income \<mapsto> (0::'a), label_expense \<mapsto> 0]
      = {label_income, label_expense}"
    by auto
  show "\<exists>m. get_summary_by_date_range_outcome None (Some e) db start_date end_date type_filter
             = Inr m \<and> dom m = {label_income, label_expense}"
    using err dom_err by blast
  show "\<exists>m. get_summary_by_date_range_outcome print_fault None db' start_date' end_date'
             type_filter = Inr m \<and> dom m = {t}"
    using ok dom_ok by blast
  have "{t} \<noteq> {label_income, label_expense}"
    using label_income_neq_expense by auto
  with dom_ok dom_err
  have "get_summary_by_date_range None db' start_date' end_date' type_filter
      \<noteq> [label_income \<mapsto> 0, label_expense \<mapsto> 0]"
    by metis
  then show "get_summary_by_date_range_outcome print_fault None db' start_date' end_date'
      type_filter \<noteq> get_summary_by_date_range_outcome None (Some e) db start_date end_date
            type_filter"
    unfolding ok err by simp
next
  assume none: "\<forall>r \<in> set (records db').
        \<not> where_clause start_date' end_date' type_filter r"
  have "get_category_summary_outcome print_fault None db' start_date' end_date' type_filter
      = Inr (get_category_summary None db' start_date' end_date' type_filter)"
    by (simp add: get_category_summary_outcome_def get_category_summary_def
          get_category_summary_try_def Let_def)
  moreover have "get_category_summary_outcome None (Some e) db start_date end_date type_filter
      = Inr Map.empty"
    by (simp add: outcome_value get_category_summary_def try_fault)
  ultimately show "get_category_summary_outcome print_fault None db' start_date' end_date'
      type_filter = get_category_summary_outcome None (Some e) db start_date end_date
        type_filter"
    by (simp add: category_summary_no_rows [OF none])
qed

theorem summary_error_results_witness:
  "type_param (Some label_income) = Some label_income \<and>
   get_summary_by_date_range_try (Some DatabaseError) example_db example_date example_date
     (Some label_income) = Inl DatabaseError \<and>
   get_summary_by_date_range_outcome None (Some DatabaseError) example_db example_date
     example_date (Some label_income) = Inr [label_income \<mapsto> 0, label_expense \<mapsto> 0] \<and>
   get_category_summary_outcome None (Some DatabaseError) example_db example_date example_date
     (Some label_income) = Inr Map.empty \<and>
   get_monthly_summary_outcome None (\<lambda>s. None) example_now (Some DatabaseError) example_db =
     Inr [label_income \<mapsto> 0, label_expense \<mapsto> 0] \<and>
   get_summary_by_date_range_outcome None None example_db example_date example_date
     (Some label_income) \<noteq>
   get_summary_by_date_range_outcome None (Some DatabaseError) example_db example_date
     example_date (Some label_income) \<and>
   get_category_summary_outcome None None example_db example_date example_date
     (Some label_income) =
   get_category_summary_outcome None (Some DatabaseError) example_db example_date example_date
     (Some label_income)"
proof -
  have f: "get_summary_by_date_range_try (Some DatabaseError) example_db example_date
      example_date (Some label_income) = Inl DatabaseError"
    "get_category_summary_try (Some DatabaseError) example_db example_date
      example_date (Some label_income) = Inl DatabaseError"
    "get_monthly_summary_try (\<lambda>s. None) example_now (Some DatabaseError) example_db
      = Inl DatabaseError"
    by (simp_all add: try_fault)
  show ?thesis
    using summary_error_results [of "Some DatabaseError" example_db example_date example_date
        "Some label_income" DatabaseError "\<lambda>s. None" example_now label_income None example_db
        example_date example_date] type_param_income f example_db_no_income
    by blast
qed

end
